theory Spec2Isabelle
  imports Main "HOL-Library.Word"
begin

chapter \<open>The generation core of logo-chat\<close>

text \<open>
  The model follows the TypeScript sources: the in-memory thread store (\<open>lib/store.ts\<close>:
  \<open>getSession\<close>, \<open>getThread\<close>, \<open>setLastImage\<close>, \<open>addMessage\<close>, \<open>cloneThread\<close>,
  \<open>createThread\<close>, \<open>deleteThread\<close>), the normalizer (\<open>lib/image.ts\<close>:
  \<open>enforcePng1024\<close>), the generation client with prompt templates and operation
  polling (\<open>getSystemPrompt\<close>, \<open>generateOrEditImage\<close>, \<open>generateVideo\<close>) and the
  request handler (\<open>app/api/messages/route.ts\<close>: \<open>POST\<close>).

  State is passed explicitly. The store is a map from session to threads; Buffers are
  references into a memory of byte regions, since \<open>cloneThread\<close> hands a Buffer of the
  source thread to the clone. What lies outside the core (sharp, the HTTP interface of
  the model, the file system, the clock) is a parameter: the record \<open>Env\<close>. Errors are
  values: a function that can throw returns \<open>error + 'a\<close>.
\<close>


section \<open>Buffers and the memory they view\<close>

text \<open>
  A Node \<open>Buffer\<close> is a view (offset and length) on a region of memory. Two Buffer
  objects may view the same region; a write through one is then read through the other.
  \<open>memory\<close> maps a region to the bytes it holds.
\<close>

type_synonym bytes = "8 word list"

record Buffer =
  region :: nat
  byteOffset :: nat
  byteLength :: nat

type_synonym memory = "nat \<Rightarrow> bytes"

text \<open>The memory in use: regions below \<open>brk\<close> are taken, a new Buffer takes the next.\<close>

record Heap =
  mem :: memory
  brk :: nat

definition alloc :: "Heap \<Rightarrow> bytes \<Rightarrow> Buffer \<times> Heap" where
  "alloc h bs =
     (\<lparr>region = brk h, byteOffset = 0, byteLength = length bs\<rparr>,
      \<lparr>mem = (mem h)(brk h := bs), brk = brk h + 1\<rparr>)"

definition bufferBytes :: "memory \<Rightarrow> Buffer \<Rightarrow> bytes" where
  "bufferBytes m b = take (byteLength b) (drop (byteOffset b) (m (region b)))"

text \<open>\<open>buf[i] = v\<close>: an index outside the view is ignored.\<close>

definition writeByte :: "memory \<Rightarrow> Buffer \<Rightarrow> nat \<Rightarrow> 8 word \<Rightarrow> memory" where
  "writeByte m b i v =
     (if i < byteLength b then m(region b := (m (region b))[byteOffset b + i := v]) else m)"

text \<open>
  \<open>buf.slice(start, end)\<close> of Node's Buffer: a new Buffer object on the same memory,
  offset and cropped (it is \<open>subarray\<close>, not the copying \<open>slice\<close> of typed arrays).
  \<open>buf.slice()\<close> is \<open>bufSlice b 0 (byteLength b)\<close>.
\<close>

definition bufSlice :: "Buffer \<Rightarrow> nat \<Rightarrow> nat \<Rightarrow> Buffer" where
  "bufSlice b start fin =
     \<lparr>region = region b,
      byteOffset = byteOffset b + min start (byteLength b),
      byteLength = min fin (byteLength b) - min start (byteLength b)\<rparr>"

section \<open>The thread store (lib/store.ts)\<close>

datatype Role = User | Assistant

record ChatMessage =
  msgId :: string
  role :: Role
  msgText :: "string option"
  imageUrl :: "string option"
  videoUrl :: "string option"
  timestamp :: nat

record ThreadState =
  messages :: "ChatMessage list"
  lastImage :: "Buffer option"
  lastImageMime :: "string option"

record SessionState =
  threads :: "string \<rightharpoonup> ThreadState"

type_synonym Store = "string \<rightharpoonup> SessionState"

text \<open>Truthiness of an optional string: \<open>undefined\<close> and the empty string are falsy.\<close>

fun truthy :: "string option \<Rightarrow> bool" where
  "truthy None = False"
| "truthy (Some s) = (s \<noteq> [])"

text \<open>\<open>a || b\<close> on an optional string and a default.\<close>

definition orElse :: "string option \<Rightarrow> string \<Rightarrow> string" where
  "orElse a d = (if truthy a then the a else d)"

text \<open>The decimal digits of a number, as a template literal prints it.\<close>

fun decimal :: "nat \<Rightarrow> string" where
  "decimal n = (if n < 10 then [''0123456789'' ! n]
                else decimal (n div 10) @ [''0123456789'' ! (n mod 10)])"

declare decimal.simps [simp del]

definition getSession :: "Store \<Rightarrow> string \<Rightarrow> SessionState \<times> Store" where
  "getSession st sessionId =
     (case st sessionId of
        Some s \<Rightarrow> (s, st)
      | None \<Rightarrow> (\<lparr>threads = Map.empty\<rparr>, st(sessionId \<mapsto> \<lparr>threads = Map.empty\<rparr>)))"

text \<open>
  The thread objects are held by reference in the session's map; \<open>putThread\<close> is the
  write of a thread object under its key, the effect of mutating the object that
  \<open>getThread\<close> returned. No two keys ever hold the same thread object or the same
  \<open>messages\<close> array (\<open>cloneThread\<close> and \<open>createThread\<close> build fresh ones), so both are
  values here; Buffers are shared, and stay references into \<open>memory\<close>.
\<close>

definition putThread :: "Store \<Rightarrow> string \<Rightarrow> string \<Rightarrow> ThreadState \<Rightarrow> Store" where
  "putThread st sessionId threadId t =
     (let (session, st1) = getSession st sessionId
      in st1(sessionId \<mapsto> session\<lparr>threads := (threads session)(threadId \<mapsto> t)\<rparr>))"

definition emptyThread :: ThreadState where
  "emptyThread = \<lparr>messages = [], lastImage = None, lastImageMime = None\<rparr>"

definition getThread :: "Store \<Rightarrow> string \<Rightarrow> string \<Rightarrow> ThreadState \<times> Store" where
  "getThread st sessionId threadId =
     (let (session, st1) = getSession st sessionId
      in case threads session threadId of
           Some t \<Rightarrow> (t, st1)
         | None \<Rightarrow> (emptyThread, putThread st1 sessionId threadId emptyThread))"

definition setLastImage :: "Store \<Rightarrow> string \<Rightarrow> string \<Rightarrow> Buffer \<Rightarrow> string \<Rightarrow> Store" where
  "setLastImage st sessionId threadId buf mime =
     (let (t, st1) = getThread st sessionId threadId
      in putThread st1 sessionId threadId (t\<lparr>lastImage := Some buf, lastImageMime := Some mime\<rparr>))"

definition addMessage :: "Store \<Rightarrow> string \<Rightarrow> string \<Rightarrow> ChatMessage \<Rightarrow> Store" where
  "addMessage st sessionId threadId msg =
     (let (t, st1) = getThread st sessionId threadId
      in putThread st1 sessionId threadId (t\<lparr>messages := messages t @ [msg]\<rparr>))"

definition getMessages :: "Store \<Rightarrow> string \<Rightarrow> string \<Rightarrow> ChatMessage list \<times> Store" where
  "getMessages st sessionId threadId =
     (let (thread, st1) = getThread st sessionId threadId in (messages thread, st1))"

text \<open>The filter of \<open>cloneThread\<close>: \<open>m.imageUrl || m.videoUrl\<close>.\<close>

definition hasMedia :: "ChatMessage \<Rightarrow> bool" where
  "hasMedia m = (truthy (imageUrl m) \<or> truthy (videoUrl m))"

text \<open>\<open>xs.slice(-1)[0]\<close>: the last element, \<open>undefined\<close> on an empty array.\<close>

definition lastOf :: "'a list \<Rightarrow> 'a option" where
  "lastOf xs = (case xs of [] \<Rightarrow> None | _ \<Rightarrow> Some (last xs))"

text \<open>\<open>t-${Date.now()}-${Math.floor(Math.random() * 1e6)}\<close>, from the two readings.\<close>

definition freshThreadId :: "nat \<Rightarrow> nat \<Rightarrow> string" where
  "freshThreadId now rnd = ''t-'' @ decimal now @ ''-'' @ decimal rnd"

text \<open>
  \<open>cloneThread\<close>. \<open>now k\<close> is the reading of the \<open>k\<close>-th \<open>Date.now()\<close> in the text of
  the function, \<open>rnd\<close> the floored random number; an absent \<open>sourceThread\<close> is
  \<open>default\<close>.
\<close>

definition cloneThread ::
  "(nat \<Rightarrow> nat) \<Rightarrow> nat \<Rightarrow> Store \<Rightarrow> string \<Rightarrow> string option \<Rightarrow> string option \<Rightarrow> string \<times> Store" where
  "cloneThread now rnd st sessionId sourceThread newThreadId =
     (let (source, st1) = getThread st sessionId (case sourceThread of None \<Rightarrow> ''default'' | Some s \<Rightarrow> s);
          ident = orElse newThreadId (freshThreadId (now 0) rnd);
          latestImageMessage = lastOf (filter hasMedia (messages source));
          cloned = \<lparr>messages = messages source,
                    lastImage = (case lastImage source of
                                   Some b \<Rightarrow> Some (bufSlice b 0 (byteLength b))
                                 | None \<Rightarrow> None),
                    lastImageMime = lastImageMime source\<rparr>;
          cloned' = (case latestImageMessage of
                       Some lm \<Rightarrow>
                         cloned\<lparr>messages := messages cloned @
                           [\<lparr>msgId = decimal (now 1) @ ''-inherited'',
                             role = Assistant,
                             msgText = Some ''Inherited from parent node'',
                             imageUrl = imageUrl lm,
                             videoUrl = videoUrl lm,
                             timestamp = now 2\<rparr>]\<rparr>
                     | None \<Rightarrow> cloned)
      in (ident, putThread st1 sessionId ident cloned'))"

definition createThread ::
  "(nat \<Rightarrow> nat) \<Rightarrow> nat \<Rightarrow> Store \<Rightarrow> string \<Rightarrow> string option \<Rightarrow> string \<times> Store" where
  "createThread now rnd st sessionId threadId =
     (let ident = orElse threadId (freshThreadId (now 0) rnd);
          (session, st1) = getSession st sessionId
      in if threads session ident \<noteq> None then (ident, st1)
         else (ident, putThread st1 sessionId ident
                 \<lparr>messages = [], lastImage = None, lastImageMime = None\<rparr>))"

definition deleteThread :: "Store \<Rightarrow> string \<Rightarrow> string \<Rightarrow> bool \<times> Store" where
  "deleteThread st sessionId threadId =
     (let (session, st1) = getSession st sessionId
      in (threads session threadId \<noteq> None,
          st1(sessionId \<mapsto> session\<lparr>threads := (threads session)(threadId := None)\<rparr>)))"

text \<open>Reading a thread without creating it (used to state properties only).\<close>

definition threadOf :: "Store \<Rightarrow> string \<Rightarrow> string \<Rightarrow> ThreadState option" where
  "threadOf st sessionId threadId =
     (case st sessionId of None \<Rightarrow> None | Some s \<Rightarrow> threads s threadId)"

definition messagesOf :: "Store \<Rightarrow> string \<Rightarrow> string \<Rightarrow> ChatMessage list" where
  "messagesOf st sessionId threadId =
     (case threadOf st sessionId threadId of None \<Rightarrow> [] | Some t \<Rightarrow> messages t)"


section \<open>Strings and JSON values\<close>

text \<open>\<open>s.startsWith(p)\<close> and the search for a substring.\<close>

fun startsWith :: "string \<Rightarrow> string \<Rightarrow> bool" where
  "startsWith s [] = True"
| "startsWith [] (p # ps) = False"
| "startsWith (c # cs) (p # ps) = (c = p \<and> startsWith cs ps)"

fun containsStr :: "string \<Rightarrow> string \<Rightarrow> bool" where
  "containsStr [] p = (p = [])"
| "containsStr (c # cs) p = (startsWith (c # cs) p \<or> containsStr cs p)"

text \<open>Case folding of the ASCII letters, for a regular expression with the \<open>i\<close> flag.\<close>

definition lowerAscii :: "char \<Rightarrow> char" where
  "lowerAscii c =
     (case map_of (zip ''ABCDEFGHIJKLMNOPQRSTUVWXYZ'' ''abcdefghijklmnopqrstuvwxyz'') c of
        Some d \<Rightarrow> d
      | None \<Rightarrow> c)"

text \<open>
  \<open>s.trim()\<close>. A character of a string here is a code unit below 256; the white
  space and line ends that \<open>trim\<close> strips among these are tab, line feed, vertical
  tab, form feed, carriage return, space and the no-break space U+00A0.
\<close>

definition isWhite :: "char \<Rightarrow> bool" where
  "isWhite c =
     (c \<in> set [CHR 0x09, CHR 0x0A, CHR 0x0B, CHR 0x0C, CHR 0x0D, CHR 0x20, CHR 0xA0])"

definition trim :: "string \<Rightarrow> string" where
  "trim s = rev (dropWhile isWhite (rev (dropWhile isWhite s)))"

text \<open>
  A parsed JSON value. A property that is not there reads \<open>undefined\<close>, which is
  \<open>None\<close> of \<open>json option\<close>. In an object with a repeated key the last entry counts,
  as \<open>JSON.parse\<close> has it.
\<close>

datatype json =
    JNull
  | JBool bool
  | JNum int
  | JStr string
  | JArr "json list"
  | JObj "(string \<times> json) list"

text \<open>\<open>typeof v === "object" && v !== null\<close>: objects and arrays.\<close>

fun isRecord :: "json option \<Rightarrow> bool" where
  "isRecord (Some (JObj kvs)) = True"
| "isRecord (Some (JArr xs)) = True"
| "isRecord v = False"

text \<open>
  \<open>v[key]\<close> for the keys the code reads (none is an index or \<open>length\<close>): an own
  property of an object, \<open>undefined\<close> on anything else.
\<close>

fun getProp :: "json option \<Rightarrow> string \<Rightarrow> json option" where
  "getProp (Some (JObj kvs)) key = map_of (rev kvs) key"
| "getProp v key = None"

fun asString :: "json option \<Rightarrow> string option" where
  "asString (Some (JStr s)) = Some s"
| "asString v = None"

fun asArray :: "json option \<Rightarrow> json list option" where
  "asArray (Some (JArr xs)) = Some xs"
| "asArray v = None"

text \<open>\<open>Array.isArray(v) ? v : []\<close>.\<close>

definition arrayOrEmpty :: "json option \<Rightarrow> json list" where
  "arrayOrEmpty v = (case asArray v of Some xs \<Rightarrow> xs | None \<Rightarrow> [])"

text \<open>\<open>xs[0]\<close>: \<open>undefined\<close> on an empty array.\<close>

fun firstOf :: "json list \<Rightarrow> json option" where
  "firstOf [] = None"
| "firstOf (x # xs) = Some x"

text \<open>\<open>a ?? b\<close>: the right side when the left is \<open>undefined\<close> or \<open>null\<close>.\<close>

fun nullish :: "json option \<Rightarrow> json option \<Rightarrow> json option" where
  "nullish None b = b"
| "nullish (Some JNull) b = b"
| "nullish a b = a"

fun truthyJson :: "json option \<Rightarrow> bool" where
  "truthyJson None = False"
| "truthyJson (Some JNull) = False"
| "truthyJson (Some (JBool b)) = b"
| "truthyJson (Some (JNum n)) = (n \<noteq> 0)"
| "truthyJson (Some (JStr s)) = (s \<noteq> [])"
| "truthyJson (Some (JArr xs)) = True"
| "truthyJson (Some (JObj kvs)) = True"

section \<open>Errors\<close>

text \<open>
  What the adapter throws, and \<open>LibraryError\<close> for what a library call throws (sharp,
  \<open>fetch\<close>, \<open>res.json()\<close>, the file system) with its message. \<open>errorMessage\<close> is
  \<open>e.message\<close>.
\<close>

datatype error =
    MissingApiKey
  | GeminiApiError nat string
  | NoImagePayload
  | VeoApiError nat string
  | InvalidOperation
  | OperationCheckFailed nat
  | DownloadFailed nat
  | NoVideoInResponse
  | VeoGenerationFailed string
  | VeoTimeout
  | LibraryError string

fun errorMessage :: "error \<Rightarrow> string" where
  "errorMessage MissingApiKey = ''Missing GOOGLE_API_KEY in environment''"
| "errorMessage (GeminiApiError status body) =
     ''Gemini API error '' @ decimal status @ '': '' @ body"
| "errorMessage NoImagePayload = ''Gemini did not return an image payload''"
| "errorMessage (VeoApiError status body) = ''Veo 3 API error '' @ decimal status @ '': '' @ body"
| "errorMessage InvalidOperation = ''Veo 3 did not return a valid operation''"
| "errorMessage (OperationCheckFailed status) = ''Operation check failed: '' @ decimal status"
| "errorMessage (DownloadFailed status) = ''Failed to download video: '' @ decimal status"
| "errorMessage NoVideoInResponse =
     ''Video generation completed but no video found in response''"
| "errorMessage (VeoGenerationFailed payload) = ''Veo 3 generation failed: '' @ payload"
| "errorMessage VeoTimeout = ''Veo 3 video generation timed out after 3+ minutes''"
| "errorMessage (LibraryError msg) = msg"

text \<open>
  An HTTP exchange: \<open>fetch\<close> throws, or answers with a status, the body as text and
  the body as \<open>res.json()\<close> reads it (its error message when the body is not JSON).
\<close>

datatype HttpResult =
    FetchFailed string
  | Http nat string "string + json"

text \<open>\<open>res.ok\<close>.\<close>

definition ok :: "nat \<Rightarrow> bool" where
  "ok status = (200 \<le> status \<and> status \<le> 299)"

text \<open>The download of a file: \<open>fetch\<close> throws, or a status and the bytes of the body.\<close>

datatype Download =
    DownloadThrew string
  | Downloaded nat bytes

section \<open>The artifact normalizer (lib/image.ts)\<close>

definition TARGET_SIZE :: nat where
  "TARGET_SIZE = 1024"

text \<open>
  The sharp library, as far as \<open>enforcePng1024\<close> uses it: \<open>metadata\<close> reads the header
  of the input, and \<open>extractResizePng\<close> is the pipeline
  \<open>extract(region).resize(w, h, {fit: "cover"}).png({compressionLevel: 9, adaptiveFiltering: true}).toBuffer()\<close>.
  Each throws on an input it cannot decode, with a message.
\<close>

record Metadata =
  width :: "nat option"
  height :: "nat option"
  format :: "string option"

record Region =
  rLeft :: nat
  rTop :: nat
  rWidth :: nat
  rHeight :: nat

record Sharp =
  metadata :: "bytes \<Rightarrow> string + Metadata"
  extractResizePng :: "bytes \<Rightarrow> Region \<Rightarrow> nat \<Rightarrow> nat \<Rightarrow> string + bytes"

text \<open>The centred square crop: lines 17 to 19 of \<open>enforcePng1024\<close>.\<close>

definition centerCrop :: "nat \<Rightarrow> nat \<Rightarrow> Region" where
  "centerCrop w ht =
     (let size = min w ht;
          l = max 0 ((w - size) div 2);
          t = max 0 ((ht - size) div 2)
      in \<lparr>rLeft = l, rTop = t, rWidth = size, rHeight = size\<rparr>)"

definition enforcePng1024 :: "Sharp \<Rightarrow> Heap \<Rightarrow> Buffer \<Rightarrow> (error + Buffer) \<times> Heap" where
  "enforcePng1024 S h input =
     (case metadata S (bufferBytes (mem h) input) of
        Inl e \<Rightarrow> (Inl (LibraryError e), h)
      | Inr meta \<Rightarrow>
          (let w = (case width meta of Some v \<Rightarrow> v | None \<Rightarrow> TARGET_SIZE);
               ht = (case height meta of Some v \<Rightarrow> v | None \<Rightarrow> TARGET_SIZE)
           in if w = TARGET_SIZE \<and> ht = TARGET_SIZE \<and> format meta = Some ''png''
              then (Inr input, h)
              else (case extractResizePng S (bufferBytes (mem h) input) (centerCrop w ht)
                           TARGET_SIZE TARGET_SIZE of
                      Inl e \<Rightarrow> (Inl (LibraryError e), h)
                    | Inr output \<Rightarrow> (case alloc h output of (b, h') \<Rightarrow> (Inr b, h')))))"

text \<open>An image in the canonical encoding: sharp reads it as a 1024 by 1024 PNG.\<close>

definition canonical :: "Sharp \<Rightarrow> bytes \<Rightarrow> bool" where
  "canonical S x =
     (case metadata S x of
        Inl e \<Rightarrow> False
      | Inr meta \<Rightarrow> width meta = Some TARGET_SIZE \<and> height meta = Some TARGET_SIZE \<and>
                    format meta = Some ''png'')"

text \<open>
  The region that is the whole of a \<open>w\<close> by \<open>ht\<close> image, and the regions that
  \<open>extract\<close> accepts on such an image: not empty, and inside it.
\<close>

definition wholeImage :: "nat \<Rightarrow> nat \<Rightarrow> Region" where
  "wholeImage w ht = \<lparr>rLeft = 0, rTop = 0, rWidth = w, rHeight = ht\<rparr>"

definition inBounds :: "Region \<Rightarrow> nat \<Rightarrow> nat \<Rightarrow> bool" where
  "inBounds r w ht =
     (0 < rWidth r \<and> 0 < rHeight r \<and> rLeft r + rWidth r \<le> w \<and> rTop r + rHeight r \<le> ht)"

definition renders :: "Sharp \<Rightarrow> bytes \<Rightarrow> Region \<Rightarrow> bool" where
  "renders S x r =
     (case extractResizePng S x r TARGET_SIZE TARGET_SIZE of
        Inl e \<Rightarrow> False
      | Inr rendered \<Rightarrow> True)"

text \<open>
  Bytes that decode as an image, whatever is then done with it: sharp reads a header
  with a width and a height that are not zero, and renders the image whole, which
  decodes every pixel.
\<close>

definition decodable :: "Sharp \<Rightarrow> bytes \<Rightarrow> bool" where
  "decodable S x =
     (case metadata S x of
        Inl e \<Rightarrow> False
      | Inr meta \<Rightarrow>
          (case (width meta, height meta) of
             (Some w, Some ht) \<Rightarrow> 0 < w \<and> 0 < ht \<and> renders S x (wholeImage w ht)
           | _ \<Rightarrow> False))"

text \<open>
  What is taken of the library. On an image of \<open>w\<close> by \<open>ht\<close> pixels the pipeline
  succeeds for a region exactly when the image renders whole and \<open>extract\<close> accepts
  the region (an empty region or one that leaves the image is a "bad extract area");
  and the PNG that \<open>resize(1024, 1024).png()\<close> writes is read back by \<open>metadata\<close> as
  a 1024 by 1024 PNG.
\<close>

definition sharpContract :: "Sharp \<Rightarrow> bool" where
  "sharpContract S =
     ((\<forall>x meta w ht r.
         metadata S x = Inr meta \<and> width meta = Some w \<and> height meta = Some ht \<longrightarrow>
         renders S x r = (renders S x (wholeImage w ht) \<and> inBounds r w ht)) \<and>
      (\<forall>x r rendered. extractResizePng S x r TARGET_SIZE TARGET_SIZE = Inr rendered
         \<longrightarrow> canonical S rendered))"

section \<open>The generation client (lib/gemini.ts)\<close>

subsection \<open>Prompt templates\<close>

definition logoPrompt :: string where
  "logoPrompt =
     ''You are a logo-generation assistant using Gemini 2.5 Flash Image.'' @ [CHR 0x0A] @
     ''Always generate or edit a single logo at exactly 1024x1024 pixels.'' @ [CHR 0x0A] @
     ''Prioritize simple, high-contrast, scalable vector-like aesthetics with clean silhouettes and minimal shapes.'' @ [CHR 0x0A] @
     ''Maintain the existing composition unless the user explicitly requests a redesign.'' @ [CHR 0x0A] @
     ''If the user asks for an edit, treat the previous image as the base and apply the change.'' @ [CHR 0x0A] @
     ''Never output non-1024x1024 images.''"

definition generalPrompt :: string where
  "generalPrompt =
     ''You are an image generation assistant using Gemini 2.5 Flash Image.'' @ [CHR 0x0A] @
     ''Generate high-quality, detailed images at exactly 1024x1024 pixels.'' @ [CHR 0x0A] @
     ''Focus on photorealistic quality, rich details, and vibrant colors.'' @ [CHR 0x0A] @
     ''If the user asks for an edit, treat the previous image as the base and apply the change.'' @ [CHR 0x0A] @
     ''Create visually stunning and accurate representations of the user's request.'' @ [CHR 0x0A] @
     ''Never output non-1024x1024 images.''"

definition artisticPrompt :: string where
  "artisticPrompt =
     ''You are an artistic image generation assistant using Gemini 2.5 Flash Image.'' @ [CHR 0x0A] @
     ''Create artistic, stylized images at exactly 1024x1024 pixels.'' @ [CHR 0x0A] @
     ''Focus on creative interpretations, unique art styles, and expressive visuals.'' @ [CHR 0x0A] @
     ''Emphasize artistic techniques like painting, illustration, digital art, or mixed media styles.'' @ [CHR 0x0A] @
     ''If the user asks for an edit, treat the previous image as the base and apply the change.'' @ [CHR 0x0A] @
     ''Never output non-1024x1024 images.''"

definition productPrompt :: string where
  "productPrompt =
     ''You are a product photography assistant using Gemini 2.5 Flash Image.'' @ [CHR 0x0A] @
     ''Generate clean, professional product images at exactly 1024x1024 pixels.'' @ [CHR 0x0A] @
     ''Focus on clear, well-lit product shots with clean backgrounds.'' @ [CHR 0x0A] @
     ''Emphasize product details, textures, and commercial appeal.'' @ [CHR 0x0A] @
     ''If the user asks for an edit, treat the previous image as the base and apply the change.'' @ [CHR 0x0A] @
     ''Never output non-1024x1024 images.''"

definition portraitPrompt :: string where
  "portraitPrompt =
     ''You are a portrait generation assistant using Gemini 2.5 Flash Image.'' @ [CHR 0x0A] @
     ''Generate detailed portraits and character images at exactly 1024x1024 pixels.'' @ [CHR 0x0A] @
     ''Focus on facial features, expressions, and character design.'' @ [CHR 0x0A] @
     ''Emphasize realistic proportions, lighting, and emotional depth.'' @ [CHR 0x0A] @
     ''If the user asks for an edit, treat the previous image as the base and apply the change.'' @ [CHR 0x0A] @
     ''Never output non-1024x1024 images.''"

definition landscapePrompt :: string where
  "landscapePrompt =
     ''You are a landscape and scene generation assistant using Gemini 2.5 Flash Image.'' @ [CHR 0x0A] @
     ''Generate beautiful landscapes, cityscapes, and environmental scenes at exactly 1024x1024 pixels.'' @ [CHR 0x0A] @
     ''Focus on composition, atmospheric effects, and scenic beauty.'' @ [CHR 0x0A] @
     ''Emphasize depth, lighting, and environmental storytelling.'' @ [CHR 0x0A] @
     ''If the user asks for an edit, treat the previous image as the base and apply the change.'' @ [CHR 0x0A] @
     ''Never output non-1024x1024 images.''"

definition VIDEO_SYSTEM_PROMPT :: string where
  "VIDEO_SYSTEM_PROMPT =
     ''You are a video-generation assistant using Veo 3.'' @ [CHR 0x0A] @
     ''Generate high-quality videos with synchronized audio based on the user's description.'' @ [CHR 0x0A] @
     ''Create cinematic content with realistic physics and smooth motion.'' @ [CHR 0x0A] @
     ''Keep videos engaging and professionally produced.'' @ [CHR 0x0A] @
     ''If provided with an image, use it as the starting frame for the video generation.''"

text \<open>The entries of \<open>PROMPT_TEMPLATES\<close>, each with its \<open>prompt\<close>.\<close>

definition PROMPT_TEMPLATES :: "(string \<times> string) list" where
  "PROMPT_TEMPLATES =
     [(''logo'', logoPrompt), (''general'', generalPrompt), (''artistic'', artisticPrompt),
      (''product'', productPrompt), (''portrait'', portraitPrompt),
      (''landscape'', landscapePrompt)]"

text \<open>
  \<open>PROMPT_TEMPLATES[key]\<close> reads the object literal through its prototype chain: an
  own entry, a member of \<open>Object.prototype\<close> (a function, or the prototype itself for
  \<open>__proto__\<close>: truthy, and without a \<open>prompt\<close>), or \<open>undefined\<close>.
\<close>

datatype Property = Own string | Inherited | Absent

definition objectPrototypeKeys :: "string list" where
  "objectPrototypeKeys =
     [''constructor'', ''__proto__'', ''hasOwnProperty'', ''isPrototypeOf'',
      ''propertyIsEnumerable'', ''toLocaleString'', ''toString'', ''valueOf'',
      ''__defineGetter__'', ''__defineSetter__'', ''__lookupGetter__'', ''__lookupSetter__'']"

definition templateProperty :: "string \<Rightarrow> Property" where
  "templateProperty key =
     (case map_of PROMPT_TEMPLATES key of
        Some p \<Rightarrow> Own p
      | None \<Rightarrow> if key \<in> set objectPrototypeKeys then Inherited else Absent)"

text \<open>\<open>getSystemPrompt\<close>; the result is \<open>undefined\<close> when the property has no \<open>prompt\<close>.\<close>

definition getSystemPrompt :: "string option \<Rightarrow> string option \<Rightarrow> string option" where
  "getSystemPrompt modelId templateId =
     (if modelId = Some ''veo-3.0-generate-preview'' then Some VIDEO_SYSTEM_PROMPT
      else if truthy templateId \<and> templateProperty (the templateId) \<noteq> Absent
      then (case templateProperty (the templateId) of
              Own p \<Rightarrow> Some p
            | _ \<Rightarrow> None)
      else Some logoPrompt)"

subsection \<open>The collaborators\<close>

record BaseImage =
  data :: Buffer
  mimeType :: string

datatype UserPart = InlineData string string | TextPart string

record ImageRequest =
  model :: string
  system_instruction :: "string option"
  parts :: "UserPart list"

record VideoRequest =
  videoModel :: string
  videoPrompt :: string
  negative_prompt :: string
  base_image :: "(string \<times> string) option"

text \<open>
  The world outside the core: the sharp library, the process environment, the model's
  HTTP interface (\<open>getOperation name k\<close> answers the \<open>k\<close>-th poll of an operation),
  base64, \<open>JSON.stringify\<close>, the theme files by name, the outcome of writing an output
  file (an error message when it fails), and the clock (\<open>dateNow k\<close> is what the
  \<open>k\<close>-th \<open>Date.now()\<close> in the text of the handler reads).
\<close>

record Env =
  sharp :: Sharp
  GOOGLE_API_KEY :: "string option"
  GEMINI_IMAGE_MODEL_env :: "string option"
  generateContent :: "ImageRequest \<Rightarrow> HttpResult"
  generateVideos :: "VideoRequest \<Rightarrow> HttpResult"
  getOperation :: "string \<Rightarrow> nat \<Rightarrow> HttpResult"
  fetchUri :: "string \<Rightarrow> Download"
  toBase64 :: "bytes \<Rightarrow> string"
  fromBase64 :: "string \<Rightarrow> bytes"
  stringify :: "json \<Rightarrow> string"
  themeFile :: "string \<Rightarrow> bytes option"
  writeFileError :: "string \<Rightarrow> string option"
  dateNow :: "nat \<Rightarrow> nat"

definition GEMINI_IMAGE_MODEL :: "Env \<Rightarrow> string" where
  "GEMINI_IMAGE_MODEL env = orElse (GEMINI_IMAGE_MODEL_env env) ''gemini-2.5-flash-image-preview''"

subsection \<open>Synchronous image generation\<close>

text \<open>\<open>/gemini/i.test(s)\<close>.\<close>

definition testGemini :: "string \<Rightarrow> bool" where
  "testGemini s = containsStr (map lowerAscii s) ''gemini''"

text \<open>The model of the request: line 130 of \<open>generateOrEditImage\<close>.\<close>

definition selectModel :: "Env \<Rightarrow> string option \<Rightarrow> string" where
  "selectModel env modelId =
     (let m = (if truthy modelId \<and> testGemini (the modelId) then the modelId
               else GEMINI_IMAGE_MODEL env)
      in if m \<noteq> [] then m else GEMINI_IMAGE_MODEL env)"

definition inlinePart :: "Env \<Rightarrow> Heap \<Rightarrow> BaseImage \<Rightarrow> string \<times> string" where
  "inlinePart env h b =
     (if mimeType b \<noteq> [] then mimeType b else ''image/png'',
      toBase64 env (bufferBytes (mem h) (data b)))"

definition imageRequest ::
  "Env \<Rightarrow> Heap \<Rightarrow> string \<Rightarrow> BaseImage option \<Rightarrow> string option \<Rightarrow> string option \<Rightarrow> ImageRequest" where
  "imageRequest env h prompt baseImage modelId templateId =
     \<lparr>model = selectModel env modelId,
      system_instruction = getSystemPrompt modelId templateId,
      parts = (case baseImage of
                 Some b \<Rightarrow> [InlineData (fst (inlinePart env h b)) (snd (inlinePart env h b))]
               | None \<Rightarrow> []) @ [TextPart prompt]\<rparr>"

text \<open>
  The text of a part against \<open>/^data:(image\/[a-zA-Z0-9.+-]+);base64,(.*)$/\<close>: the
  subtype is the longest run of its characters, and the payload runs to the end of the
  text, with no line end in it (line feed and carriage return, of the characters
  modelled).
\<close>

definition isSubtypeChar :: "char \<Rightarrow> bool" where
  "isSubtypeChar c =
     (c \<in> set ''abcdefghijklmnopqrstuvwxyzABCDEFGHIJKLMNOPQRSTUVWXYZ0123456789.+-'')"

record Payload =
  payloadData :: string
  payloadMime :: string

definition matchDataUri :: "string \<Rightarrow> Payload option" where
  "matchDataUri text =
     (if startsWith text ''data:image/'' then
        (let rest = drop 11 text;
             subtype = takeWhile isSubtypeChar rest;
             after = dropWhile isSubtypeChar rest;
             payload = drop 8 after
         in if subtype \<noteq> [] \<and> startsWith after '';base64,'' \<and>
               list_all (\<lambda>c. c \<noteq> CHR 0x0A \<and> c \<noteq> CHR 0x0D) payload
            then Some \<lparr>payloadData = payload, payloadMime = ''image/'' @ subtype\<rparr>
            else None)
      else None)"

text \<open>\<open>p["inline_data"] ?? p["inlineData"] ?? p["file_data"] ?? p["fileData"]\<close>.\<close>

definition inlineOf :: "json \<Rightarrow> json option" where
  "inlineOf p =
     nullish (nullish (nullish (getProp (Some p) ''inline_data'') (getProp (Some p) ''inlineData''))
                (getProp (Some p) ''file_data''))
       (getProp (Some p) ''fileData'')"

text \<open>The body of the loop over the parts: what one part returns, if it returns.\<close>

definition scanPart :: "json \<Rightarrow> Payload option" where
  "scanPart p =
     (if \<not> isRecord (Some p) then None
      else
        (let inline = inlineOf p in
         if isRecord inline \<and> asString (getProp inline ''data'') \<noteq> None
         then Some \<lparr>payloadData = the (asString (getProp inline ''data'')),
                    payloadMime =
                      (case asString (getProp inline ''mime_type'') of
                         Some m \<Rightarrow> m
                       | None \<Rightarrow>
                           (case asString (getProp inline ''mimeType'') of
                              Some m \<Rightarrow> m
                            | None \<Rightarrow> ''image/png''))\<rparr>
         else
           (case asString (getProp (Some p) ''text'') of
              Some text \<Rightarrow> if startsWith text ''data:image/'' then matchDataUri text else None
            | None \<Rightarrow> None)))"

fun scanParts :: "json list \<Rightarrow> Payload option" where
  "scanParts [] = None"
| "scanParts (p # ps) = (case scanPart p of Some r \<Rightarrow> Some r | None \<Rightarrow> scanParts ps)"

fun scanCandidates :: "json list \<Rightarrow> Payload option" where
  "scanCandidates [] = None"
| "scanCandidates (c # cs) =
     (if \<not> isRecord (Some c) then scanCandidates cs
      else
        (let content = getProp (Some c) ''content'' in
         if \<not> isRecord content then scanCandidates cs
         else (case scanParts (arrayOrEmpty (getProp content ''parts'')) of
                 Some r \<Rightarrow> Some r
               | None \<Rightarrow> scanCandidates cs)))"

text \<open>The top-level \<open>images\<close> array: its first element, when it has string \<open>data\<close>.\<close>

definition topLevelImage :: "json \<Rightarrow> Payload option" where
  "topLevelImage j =
     (let first = firstOf (arrayOrEmpty (getProp (Some j) ''images'')) in
      if isRecord first \<and> asString (getProp first ''data'') \<noteq> None
      then Some \<lparr>payloadData = the (asString (getProp first ''data'')),
                 payloadMime = (case asString (getProp first ''mime_type'') of
                                  Some m \<Rightarrow> m
                                | None \<Rightarrow> ''image/png'')\<rparr>
      else None)"

text \<open>The parse of the response: lines 186 to 226 of \<open>generateOrEditImage\<close>.\<close>

definition parseImageResponse :: "json \<Rightarrow> error + Payload" where
  "parseImageResponse j =
     (case (if isRecord (Some j) then scanCandidates (arrayOrEmpty (getProp (Some j) ''candidates''))
            else None) of
        Some r \<Rightarrow> Inr r
      | None \<Rightarrow>
          (case (if isRecord (Some j) then topLevelImage j else None) of
             Some r \<Rightarrow> Inr r
           | None \<Rightarrow> Inl NoImagePayload))"

definition generateOrEditImage ::
  "Env \<Rightarrow> Heap \<Rightarrow> string \<Rightarrow> BaseImage option \<Rightarrow> string option \<Rightarrow> string option
     \<Rightarrow> (error + Buffer \<times> string) \<times> Heap" where
  "generateOrEditImage env h prompt baseImage modelId templateId =
     (if \<not> truthy (GOOGLE_API_KEY env) then (Inl MissingApiKey, h)
      else
        (case generateContent env (imageRequest env h prompt baseImage modelId templateId) of
           FetchFailed msg \<Rightarrow> (Inl (LibraryError msg), h)
         | Http status body parsed \<Rightarrow>
             if \<not> ok status then (Inl (GeminiApiError status body), h)
             else
               (case parsed of
                  Inl msg \<Rightarrow> (Inl (LibraryError msg), h)
                | Inr j \<Rightarrow>
                    (case parseImageResponse j of
                       Inl e \<Rightarrow> (Inl e, h)
                     | Inr r \<Rightarrow>
                         (case alloc h (fromBase64 env (payloadData r)) of
                            (buffer, h') \<Rightarrow> (Inr (buffer, payloadMime r), h'))))))"

subsection \<open>Asynchronous video generation\<close>

definition maxAttempts :: nat where
  "maxAttempts = 40"

definition videoRequest :: "Env \<Rightarrow> Heap \<Rightarrow> string \<Rightarrow> BaseImage option \<Rightarrow> VideoRequest" where
  "videoRequest env h prompt baseImage =
     \<lparr>videoModel = ''veo-3.0-generate-preview'',
      videoPrompt = prompt,
      negative_prompt = ''blurry, low quality, distorted'',
      base_image = (case baseImage of Some b \<Rightarrow> Some (inlinePart env h b) | None \<Rightarrow> None)\<rparr>"

text \<open>
  A completed operation: the first generated video's file is downloaded from its
  \<open>uri\<close>; anything else is "no video found".
\<close>

definition extractVideo :: "Env \<Rightarrow> json \<Rightarrow> error + bytes" where
  "extractVideo env checkJson =
     (let result = getProp (Some checkJson) ''result'';
          firstVideo = firstOf (arrayOrEmpty (getProp result ''generated_videos''));
          videoFile = getProp firstVideo ''video''
      in if isRecord result \<and> asArray (getProp result ''generated_videos'') \<noteq> None \<and>
            isRecord firstVideo \<and> isRecord videoFile \<and> asString (getProp videoFile ''uri'') \<noteq> None
         then (case fetchUri env (the (asString (getProp videoFile ''uri''))) of
                 DownloadThrew msg \<Rightarrow> Inl (LibraryError msg)
               | Downloaded status body \<Rightarrow>
                   if ok status then Inr body else Inl (DownloadFailed status))
         else Inl NoVideoInResponse)"

text \<open>
  The polling loop, from \<open>attempt\<close> on. Beside what the loop returns or throws, the
  result counts the polls made (\<open>polls\<close>) and adds up the waits (\<open>sleptMs\<close>).
\<close>

record PollResult =
  outcome :: "error + bytes"
  polls :: nat
  sleptMs :: nat

function pollOperation :: "Env \<Rightarrow> string \<Rightarrow> nat \<Rightarrow> nat \<Rightarrow> PollResult" where
  "pollOperation env operationName attempt slept =
     (if attempt < maxAttempts then
        (case getOperation env operationName attempt of
           FetchFailed msg \<Rightarrow>
             \<lparr>outcome = Inl (LibraryError msg), polls = attempt + 1, sleptMs = slept + 5000\<rparr>
         | Http status body parsed \<Rightarrow>
             if \<not> ok status
             then \<lparr>outcome = Inl (OperationCheckFailed status), polls = attempt + 1,
                   sleptMs = slept + 5000\<rparr>
             else
               (case parsed of
                  Inl msg \<Rightarrow>
                    \<lparr>outcome = Inl (LibraryError msg), polls = attempt + 1,
                     sleptMs = slept + 5000\<rparr>
                | Inr checkJson \<Rightarrow>
                    if isRecord (Some checkJson) \<and> getProp (Some checkJson) ''done'' = Some (JBool True)
                    then \<lparr>outcome = extractVideo env checkJson, polls = attempt + 1,
                          sleptMs = slept + 5000\<rparr>
                    else if isRecord (Some checkJson) \<and> truthyJson (getProp (Some checkJson) ''error'')
                    then \<lparr>outcome = Inl (VeoGenerationFailed
                                          (stringify env (the (getProp (Some checkJson) ''error'')))),
                          polls = attempt + 1, sleptMs = slept + 5000\<rparr>
                    else pollOperation env operationName (attempt + 1) (slept + 5000)))
      else \<lparr>outcome = Inl VeoTimeout, polls = attempt, sleptMs = slept\<rparr>)"
  by pat_completeness auto
termination
  by (relation "measure (\<lambda>(env, operationName, attempt, slept). maxAttempts - attempt)") auto

declare pollOperation.simps [simp del]

record VideoRun =
  videoResult :: "error + Buffer"
  videoHeap :: Heap
  pollCount :: nat
  waitedMs :: nat

definition generateVideo :: "Env \<Rightarrow> Heap \<Rightarrow> string \<Rightarrow> BaseImage option \<Rightarrow> VideoRun" where
  "generateVideo env h prompt baseImage =
     (if \<not> truthy (GOOGLE_API_KEY env)
      then \<lparr>videoResult = Inl MissingApiKey, videoHeap = h, pollCount = 0, waitedMs = 0\<rparr>
      else
        (case generateVideos env (videoRequest env h prompt baseImage) of
           FetchFailed msg \<Rightarrow>
             \<lparr>videoResult = Inl (LibraryError msg), videoHeap = h, pollCount = 0, waitedMs = 0\<rparr>
         | Http status body parsed \<Rightarrow>
             if \<not> ok status
             then \<lparr>videoResult = Inl (VeoApiError status body), videoHeap = h, pollCount = 0,
                   waitedMs = 0\<rparr>
             else
               (case parsed of
                  Inl msg \<Rightarrow>
                    \<lparr>videoResult = Inl (LibraryError msg), videoHeap = h, pollCount = 0,
                     waitedMs = 0\<rparr>
                | Inr j \<Rightarrow>
                    if isRecord (Some j) \<and> asString (getProp (Some j) ''name'') \<noteq> None
                    then
                      (let r = pollOperation env (the (asString (getProp (Some j) ''name''))) 0 0
                       in case outcome r of
                            Inl e \<Rightarrow>
                              \<lparr>videoResult = Inl e, videoHeap = h, pollCount = polls r,
                               waitedMs = sleptMs r\<rparr>
                          | Inr body \<Rightarrow>
                              (case alloc h body of
                                 (videoBuffer, h') \<Rightarrow>
                                   \<lparr>videoResult = Inr videoBuffer, videoHeap = h',
                                    pollCount = polls r, waitedMs = sleptMs r\<rparr>))
                    else \<lparr>videoResult = Inl InvalidOperation, videoHeap = h, pollCount = 0,
                          waitedMs = 0\<rparr>)))"

section \<open>The orchestrator (app/api/messages/route.ts)\<close>

subsection \<open>The request\<close>

text \<open>
  The body as the handler decodes it: form data (a field is a string or a file, whose
  bytes are a Buffer in memory), a JSON value, or a body that \<open>formData()\<close> or
  \<open>json()\<close> rejects, with the message.
\<close>

datatype FormValue = FormString string | FormFile Buffer

datatype RequestBody =
    FormData "string \<Rightarrow> FormValue option"
  | JsonBody json
  | Malformed string

record Parsed =
  reqPrompt :: json
  reqUpload :: "Buffer option"
  reqTheme :: "string option"
  reqModel :: "string option"
  reqThread :: string

fun formString :: "FormValue option \<Rightarrow> string option" where
  "formString (Some (FormString s)) = Some s"
| "formString v = None"

fun formFile :: "FormValue option \<Rightarrow> Buffer option" where
  "formFile (Some (FormFile b)) = Some b"
| "formFile v = None"

text \<open>\<open>typeof v === "string" && v.trim()\<close>, then \<open>v.trim()\<close>.\<close>

definition trimmed :: "string option \<Rightarrow> string option" where
  "trimmed v = (case v of
                  Some s \<Rightarrow> if trim s \<noteq> [] then Some (trim s) else None
                | None \<Rightarrow> None)"

text \<open>Lines 31 to 70 of \<open>POST\<close>; \<open>Inl\<close> is the message of the error caught.\<close>

definition parseBody :: "RequestBody \<Rightarrow> string + Parsed" where
  "parseBody body =
     (case body of
        Malformed msg \<Rightarrow> Inl msg
      | FormData form \<Rightarrow>
          Inr \<lparr>reqPrompt = JStr (case formString (form ''message'') of Some m \<Rightarrow> m | None \<Rightarrow> []),
               reqUpload = formFile (form ''file''),
               reqTheme = trimmed (formString (form ''theme'')),
               reqModel = trimmed (formString (form ''model'')),
               reqThread = (case trimmed (formString (form ''thread'')) of
                              Some t \<Rightarrow> t
                            | None \<Rightarrow> ''default'')\<rparr>
      | JsonBody j \<Rightarrow>
          Inr \<lparr>reqPrompt = (if truthyJson (getProp (Some j) ''message'')
                            then the (getProp (Some j) ''message'') else JStr []),
               reqUpload = None,
               reqTheme = trimmed (asString (getProp (Some j) ''theme'')),
               reqModel = trimmed (asString (getProp (Some j) ''model'')),
               reqThread = (case trimmed (asString (getProp (Some j) ''thread'')) of
                              Some t \<Rightarrow> t
                            | None \<Rightarrow> ''default'')\<rparr>)"

text \<open>\<open>!prompt || typeof prompt !== "string"\<close> is false: a string that is not empty.\<close>

definition promptText :: "json \<Rightarrow> string option" where
  "promptText p = (case asString (Some p) of
                     Some s \<Rightarrow> if s \<noteq> [] then Some s else None
                   | None \<Rightarrow> None)"

subsection \<open>The state and the response\<close>

text \<open>
  The state the handler works on: the store, the memory, and the files written under
  \<open>public/outputs\<close> by path.
\<close>

record World =
  store :: Store
  heap :: Heap
  outputs :: "string \<rightharpoonup> bytes"

text \<open>
  \<open>NextResponse.json(body, {status})\<close>, or the error that leaves the handler when
  nothing catches it.
\<close>

datatype ResponseBody = ErrorBody string | MessageBody string ChatMessage

datatype Response = Json nat ResponseBody | Thrown error

subsection \<open>The base image\<close>

text \<open>\<open>path.basename\<close> of a POSIX path.\<close>

definition basename :: "string \<Rightarrow> string" where
  "basename p =
     rev (takeWhile (\<lambda>c. c \<noteq> CHR ''/'') (dropWhile (\<lambda>c. c = CHR ''/'') (rev p)))"

text \<open>
  Lines 99 to 114: the theme file, read and normalized; any failure gives \<open>null\<close>.
\<close>

definition loadTheme :: "Env \<Rightarrow> Heap \<Rightarrow> string option \<Rightarrow> Buffer option \<times> Heap" where
  "loadTheme env h themeName =
     (if truthy themeName then
        (case themeFile env (basename (the themeName)) of
           None \<Rightarrow> (None, h)
         | Some raw \<Rightarrow>
             (case alloc h raw of
                (rawBuffer, h1) \<Rightarrow>
                  (case enforcePng1024 (sharp env) h1 rawBuffer of
                     (Inr b, h2) \<Rightarrow> (Some b, h2)
                   | (Inl e, h2) \<Rightarrow> (None, h2))))
      else (None, h))"

text \<open>
  Lines 96 to 123: the normalized upload (its error is not caught), the theme, and the
  choice upload, then theme, then the thread's last image.
\<close>

definition resolveBase ::
  "Env \<Rightarrow> Heap \<Rightarrow> Buffer option \<Rightarrow> string option \<Rightarrow> ThreadState
     \<Rightarrow> (error + BaseImage option) \<times> Heap" where
  "resolveBase env h uploadBuffer themeName threadState =
     (case (case uploadBuffer of
              Some u \<Rightarrow>
                (case enforcePng1024 (sharp env) h u of
                   (Inr b, h1) \<Rightarrow> (Inr (Some b), h1)
                 | (Inl e, h1) \<Rightarrow> (Inl e, h1))
            | None \<Rightarrow> (Inr None, h)) of
        (Inl e, h1) \<Rightarrow> (Inl e, h1)
      | (Inr normalizedUpload, h1) \<Rightarrow>
          (case loadTheme env h1 themeName of
             (themeBuffer, h2) \<Rightarrow>
               (Inr (case normalizedUpload of
                       Some b \<Rightarrow> Some \<lparr>data = b, mimeType = ''image/png''\<rparr>
                     | None \<Rightarrow>
                         (case themeBuffer of
                            Some b \<Rightarrow> Some \<lparr>data = b, mimeType = ''image/png''\<rparr>
                          | None \<Rightarrow>
                              (case lastImage threadState of
                                 Some b \<Rightarrow>
                                   Some \<lparr>data = b,
                                         mimeType = orElse (lastImageMime threadState) ''image/png''\<rparr>
                               | None \<Rightarrow> None))),
                h2)))"

subsection \<open>The generation step\<close>

text \<open>
  The body of the \<open>try\<close> block, lines 135 to 194: \<open>Inl\<close> is the error thrown, with
  the state at that point; \<open>Inr\<close> is the assistant message of the response.
\<close>

definition generationStep ::
  "Env \<Rightarrow> World \<Rightarrow> string \<Rightarrow> string \<Rightarrow> string \<Rightarrow> string option \<Rightarrow> BaseImage option
     \<Rightarrow> (error + ChatMessage) \<times> World" where
  "generationStep env w sid threadId prompt modelId baseImage =
     (if modelId = Some ''veo-3'' then
        (let run = generateVideo env (heap w) prompt baseImage;
             w1 = w\<lparr>heap := videoHeap run\<rparr>
         in case videoResult run of
              Inl e \<Rightarrow> (Inl e, w1)
            | Inr video \<Rightarrow>
                (let filename = decimal (dateNow env 2) @ ''.mp4'';
                     relUrl = ''/outputs/'' @ sid @ ''/'' @ filename;
                     filepath = ''public'' @ relUrl
                 in case writeFileError env filepath of
                      Some msg \<Rightarrow> (Inl (LibraryError msg), w1)
                    | None \<Rightarrow>
                        (let assistantMsg =
                               \<lparr>msgId = decimal (dateNow env 3) @ ''-a'', role = Assistant,
                                msgText = None, imageUrl = None, videoUrl = Some relUrl,
                                timestamp = dateNow env 4\<rparr>
                         in (Inr assistantMsg,
                             w1\<lparr>outputs := (outputs w1)(filepath \<mapsto> bufferBytes (mem (heap w1)) video),
                                store := addMessage (store w1) sid threadId assistantMsg\<rparr>))))
      else
        (case generateOrEditImage env (heap w) prompt baseImage modelId None of
           (Inl e, h1) \<Rightarrow> (Inl e, w\<lparr>heap := h1\<rparr>)
         | (Inr (generated, mime), h1) \<Rightarrow>
             (case enforcePng1024 (sharp env) h1 generated of
                (Inl e, h2) \<Rightarrow> (Inl e, w\<lparr>heap := h2\<rparr>)
              | (Inr png, h2) \<Rightarrow>
                  (let w2 = w\<lparr>heap := h2\<rparr>;
                       filename = decimal (dateNow env 5) @ ''.png'';
                       relUrl = ''/outputs/'' @ sid @ ''/'' @ filename;
                       filepath = ''public'' @ relUrl
                   in case writeFileError env filepath of
                        Some msg \<Rightarrow> (Inl (LibraryError msg), w2)
                      | None \<Rightarrow>
                          (let assistantMsg =
                                 \<lparr>msgId = decimal (dateNow env 6) @ ''-a'', role = Assistant,
                                  msgText = None, imageUrl = Some relUrl, videoUrl = None,
                                  timestamp = dateNow env 7\<rparr>
                           in (Inr assistantMsg,
                               w2\<lparr>outputs := (outputs w2)(filepath \<mapsto> bufferBytes (mem (heap w2)) png),
                                  store := addMessage
                                             (setLastImage (store w2) sid threadId png ''image/png'')
                                             sid threadId assistantMsg\<rparr>))))))"

subsection \<open>The handler\<close>

definition userMessage :: "Env \<Rightarrow> string \<Rightarrow> ChatMessage" where
  "userMessage env prompt =
     \<lparr>msgId = decimal (dateNow env 0) @ ''-u'', role = User, msgText = Some prompt,
      imageUrl = None, videoUrl = None, timestamp = dateNow env 1\<rparr>"

definition errorReply :: "Env \<Rightarrow> error \<Rightarrow> ChatMessage" where
  "errorReply env e =
     \<lparr>msgId = decimal (dateNow env 8) @ ''-a-err'', role = Assistant,
      msgText = Some (''Error: '' @ errorMessage e), imageUrl = None, videoUrl = None,
      timestamp = dateNow env 9\<rparr>"

definition POST :: "Env \<Rightarrow> World \<Rightarrow> string \<Rightarrow> RequestBody \<Rightarrow> Response \<times> World" where
  "POST env w sid body =
     (case parseBody body of
        Inl msg \<Rightarrow> (Json 400 (ErrorBody (''Invalid request: '' @ msg)), w)
      | Inr req \<Rightarrow>
          (case promptText (reqPrompt req) of
             None \<Rightarrow> (Json 400 (ErrorBody ''Missing message''), w)
           | Some prompt \<Rightarrow>
               (let threadId = reqThread req;
                    st1 = addMessage (store w) sid threadId (userMessage env prompt);
                    (threadState, st2) = getThread st1 sid threadId
                in case resolveBase env (heap w) (reqUpload req) (reqTheme req) threadState of
                     (Inl e, h1) \<Rightarrow> (Thrown e, w\<lparr>store := st2, heap := h1\<rparr>)
                   | (Inr baseImage, h1) \<Rightarrow>
                       (case generationStep env (w\<lparr>store := st2, heap := h1\<rparr>) sid threadId prompt
                               (reqModel req) baseImage of
                          (Inr assistantMsg, w') \<Rightarrow>
                            (Json 200 (MessageBody threadId assistantMsg), w')
                        | (Inl e, w') \<Rightarrow>
                            (Json 500 (ErrorBody (''Error: '' @ errorMessage e)),
                             w'\<lparr>store := addMessage (store w') sid threadId (errorReply env e)\<rparr>)))))"

section \<open>Notions used to state the properties\<close>

text \<open>
  A Buffer is allocated in a heap when its region is in use; a later heap extends an
  earlier one when it has kept every region that was in use as it was.
\<close>

definition allocated :: "Heap \<Rightarrow> Buffer \<Rightarrow> bool" where
  "allocated h b = (region b < brk h)"

definition extends :: "Heap \<Rightarrow> Heap \<Rightarrow> bool" where
  "extends h h' = (brk h \<le> brk h' \<and> (\<forall>a<brk h. mem h' a = mem h a))"

text \<open>
  The last artifact of a thread as the next request would find it: the Buffer and the
  MIME type, both absent for a thread that does not exist yet.
\<close>

definition lastArtifactOf :: "Store \<Rightarrow> string \<Rightarrow> string \<Rightarrow> Buffer option \<times> string option" where
  "lastArtifactOf st sessionId threadId =
     (case threadOf st sessionId threadId of
        None \<Rightarrow> (None, None)
      | Some t \<Rightarrow> (lastImage t, lastImageMime t))"

text \<open>The text of the \<open>message\<close> field of a decoded body, when it is a string.\<close>

fun messageField :: "RequestBody \<Rightarrow> string option" where
  "messageField (FormData form) = formString (form ''message'')"
| "messageField (JsonBody j) = asString (getProp (Some j) ''message'')"
| "messageField (Malformed msg) = None"

fun decoded :: "RequestBody \<Rightarrow> bool" where
  "decoded (Malformed msg) = False"
| "decoded body = True"

text \<open>The locators of the files the handler writes.\<close>

definition videoUrlFor :: "Env \<Rightarrow> string \<Rightarrow> string" where
  "videoUrlFor env sid = ''/outputs/'' @ sid @ ''/'' @ decimal (dateNow env 2) @ ''.mp4''"

definition imageUrlFor :: "Env \<Rightarrow> string \<Rightarrow> string" where
  "imageUrlFor env sid = ''/outputs/'' @ sid @ ''/'' @ decimal (dateNow env 5) @ ''.png''"

text \<open>The store once the user message is recorded and the thread read.\<close>

definition storeAfterUser :: "Env \<Rightarrow> Store \<Rightarrow> string \<Rightarrow> string \<Rightarrow> string \<Rightarrow> Store" where
  "storeAfterUser env st sid tid prompt =
     snd (getThread (addMessage st sid tid (userMessage env prompt)) sid tid)"

definition threadAfterUser :: "Env \<Rightarrow> Store \<Rightarrow> string \<Rightarrow> string \<Rightarrow> string \<Rightarrow> ThreadState" where
  "threadAfterUser env st sid tid prompt =
     fst (getThread (addMessage st sid tid (userMessage env prompt)) sid tid)"

text \<open>
  What \<open>enforcePng1024\<close> returns as bytes, for input bytes: the input itself on the
  fast path, the rendered PNG otherwise, nothing when sharp throws.
\<close>

definition normalizedBytes :: "Sharp \<Rightarrow> bytes \<Rightarrow> bytes option" where
  "normalizedBytes S x =
     (case metadata S x of
        Inl e \<Rightarrow> None
      | Inr meta \<Rightarrow>
          (let w = (case width meta of Some v \<Rightarrow> v | None \<Rightarrow> TARGET_SIZE);
               ht = (case height meta of Some v \<Rightarrow> v | None \<Rightarrow> TARGET_SIZE)
           in if w = TARGET_SIZE \<and> ht = TARGET_SIZE \<and> format meta = Some ''png'' then Some x
              else (case extractResizePng S x (centerCrop w ht) TARGET_SIZE TARGET_SIZE of
                      Inl e \<Rightarrow> None
                    | Inr rendered \<Rightarrow> Some rendered)))"

text \<open>
  The theme image of a request, normalized, when there is one: the name is given, the
  theme store has the file and sharp decodes it.
\<close>

definition themeBytes :: "Env \<Rightarrow> string option \<Rightarrow> bytes option" where
  "themeBytes env themeName =
     (if truthy themeName
      then (case themeFile env (basename (the themeName)) of
              None \<Rightarrow> None
            | Some raw \<Rightarrow> normalizedBytes (sharp env) raw)
      else None)"

text \<open>
  A poll that leaves the operation pending: the status is a success, the body is JSON,
  and it reports neither \<open>done: true\<close> nor an error payload.
\<close>

definition pending :: "HttpResult \<Rightarrow> bool" where
  "pending res =
     (case res of
        Http status body (Inr checkJson) \<Rightarrow>
          ok status \<and>
          \<not> (isRecord (Some checkJson) \<and> getProp (Some checkJson) ''done'' = Some (JBool True)) \<and>
          \<not> (isRecord (Some checkJson) \<and> truthyJson (getProp (Some checkJson) ''error''))
      | _ \<Rightarrow> False)"


text \<open>
  A poll answered with an error payload (a truthy \<open>error\<close>), and a poll answered
  \<open>done: true\<close>; one answer can be both.
\<close>

definition errorPayload :: "HttpResult \<Rightarrow> bool" where
  "errorPayload res =
     (case res of
        Http status body (Inr checkJson) \<Rightarrow>
          ok status \<and> isRecord (Some checkJson) \<and> truthyJson (getProp (Some checkJson) ''error'')
      | _ \<Rightarrow> False)"

definition reportsDone :: "HttpResult \<Rightarrow> json option" where
  "reportsDone res =
     (case res of
        Http status body (Inr checkJson) \<Rightarrow>
          if ok status \<and> isRecord (Some checkJson) \<and>
             getProp (Some checkJson) ''done'' = Some (JBool True)
          then Some checkJson else None
      | _ \<Rightarrow> None)"


text \<open>The first element of a list on which \<open>f\<close> gives a result, and that result.\<close>

fun firstSome :: "('a \<Rightarrow> 'b option) \<Rightarrow> 'a list \<Rightarrow> 'b option" where
  "firstSome f [] = None"
| "firstSome f (x # xs) = (case f x of Some r \<Rightarrow> Some r | None \<Rightarrow> firstSome f xs)"

text \<open>
  The two ways a part of the response can carry an image: inline data, and a text that
  is a data URI. The inline data of a part is the value of the first of the keys
  \<open>inline_data\<close>, \<open>inlineData\<close>, \<open>file_data\<close>, \<open>fileData\<close> that is neither absent nor
  null, and it counts when that value is an object with a string \<open>data\<close>; the keys
  after it are not read. The MIME type is the declared one, \<open>image/png\<close> without one.
\<close>

definition inlinePayload :: "json \<Rightarrow> Payload option" where
  "inlinePayload p =
     (let inline = inlineOf p in
      if isRecord (Some p) \<and> isRecord inline \<and> asString (getProp inline ''data'') \<noteq> None
      then Some \<lparr>payloadData = the (asString (getProp inline ''data'')),
                 payloadMime =
                   (case asString (getProp inline ''mime_type'') of
                      Some m \<Rightarrow> m
                    | None \<Rightarrow>
                        (case asString (getProp inline ''mimeType'') of
                           Some m \<Rightarrow> m
                         | None \<Rightarrow> ''image/png''))\<rparr>
      else None)"

definition textPayload :: "json \<Rightarrow> Payload option" where
  "textPayload p =
     (case asString (getProp (Some p) ''text'') of
        Some text \<Rightarrow> matchDataUri text
      | None \<Rightarrow> None)"

text \<open>The parts of the response in document order: those of each candidate's content.\<close>

definition candidateParts :: "json \<Rightarrow> json list" where
  "candidateParts c =
     (if isRecord (Some c) \<and> isRecord (getProp (Some c) ''content'')
      then arrayOrEmpty (getProp (getProp (Some c) ''content'') ''parts'')
      else [])"

definition allParts :: "json \<Rightarrow> json list" where
  "allParts j = concat (map candidateParts (arrayOrEmpty (getProp (Some j) ''candidates'')))"

text \<open>
  The parse in the order the specification gives: first an inline-data part anywhere in
  the candidates, then a data-URI text part, then the top-level \<open>images\<close> array.
\<close>

definition parseInStatedOrder :: "json \<Rightarrow> error + Payload" where
  "parseInStatedOrder j =
     (case firstSome inlinePayload (allParts j) of
        Some r \<Rightarrow> Inr r
      | None \<Rightarrow>
          (case firstSome textPayload (allParts j) of
             Some r \<Rightarrow> Inr r
           | None \<Rightarrow>
               (case topLevelImage j of
                  Some r \<Rightarrow> Inr r
                | None \<Rightarrow> Inl NoImagePayload)))"

text \<open>What one part gives when inline data is looked for first and a data URI second.\<close>

definition partPayload :: "json \<Rightarrow> Payload option" where
  "partPayload p = (case inlinePayload p of Some r \<Rightarrow> Some r | None \<Rightarrow> textPayload p)"

section \<open>Example inputs\<close>

text \<open>
  A store with one session whose \<open>default\<close> thread has three messages, the second
  with an image, and a last image viewing region 0 of memory. The images of the examples
  are in the three-byte format of \<open>toySharp\<close> below: region 0 holds a 1024 by 1024
  PNG, region 1 a file that is not an image.
\<close>

definition exampleLog :: "ChatMessage list" where
  "exampleLog =
     [\<lparr>msgId = ''100-u'', role = User, msgText = Some ''draw a cat logo'',
       imageUrl = None, videoUrl = None, timestamp = 100\<rparr>,
      \<lparr>msgId = ''101-a'', role = Assistant, msgText = None,
       imageUrl = Some ''/outputs/s/101.png'', videoUrl = None, timestamp = 101\<rparr>,
      \<lparr>msgId = ''102-u'', role = User, msgText = Some ''make it blue'',
       imageUrl = None, videoUrl = None, timestamp = 102\<rparr>]"

definition exampleStore :: Store where
  "exampleStore =
     [''s'' \<mapsto> \<lparr>threads = [''default'' \<mapsto>
        \<lparr>messages = exampleLog,
         lastImage = Some \<lparr>region = 0, byteOffset = 0, byteLength = 3\<rparr>,
         lastImageMime = Some ''image/png''\<rparr>]\<rparr>]"

definition exampleMemory :: memory where
  "exampleMemory = (\<lambda>_. [])(0 := [0, 16, 16], 1 := [104, 105])"


definition exampleHeap :: Heap where
  "exampleHeap = \<lparr>mem = exampleMemory, brk = 2\<rparr>"

text \<open>
  A stand-in for sharp on three-byte images: a format byte (0 is PNG), then width and
  height in units of 64 pixels. Its pipeline refuses a bad extract area and otherwise
  writes the 1024 by 1024 PNG.
\<close>

definition toyMetadata :: "bytes \<Rightarrow> string + Metadata" where
  "toyMetadata x =
     (case x of
        [f, w, ht] \<Rightarrow>
          if w = 0 \<or> ht = 0 then Inl ''Input buffer has corrupt header''
          else Inr \<lparr>width = Some (64 * unat w), height = Some (64 * unat ht),
                    format = Some (if f = 0 then ''png'' else ''jpeg'')\<rparr>
      | _ \<Rightarrow> Inl ''Input buffer contains unsupported image format'')"

definition toySharp :: Sharp where
  "toySharp =
     \<lparr>metadata = toyMetadata,
      extractResizePng = (\<lambda>x r tw th.
        case x of
          [f, w, ht] \<Rightarrow>
            if w = 0 \<or> ht = 0 then Inl ''Input buffer has corrupt header''
            else if inBounds r (64 * unat w) (64 * unat ht) \<and> tw = 1024 \<and> th = 1024
            then Inr [0, 16, 16]
            else Inl ''extract_area: bad extract area''
        | _ \<Rightarrow> Inl ''Input buffer contains unsupported image format'')\<rparr>"

text \<open>A heap with a JPEG of 2048 by 1536 in region 0 and a canonical PNG in region 1.\<close>

definition jpegHeap :: Heap where
  "jpegHeap = \<lparr>mem = (\<lambda>_. [])(0 := [1, 32, 24], 1 := [0, 16, 16]), brk = 2\<rparr>"

definition imageResponse :: json where
  "imageResponse =
     JObj [(''candidates'',
       JArr [JObj [(''content'',
         JObj [(''parts'',
           JArr [JObj [(''text'', JStr ''Here is your logo'')],
                 JObj [(''inline_data'',
                   JObj [(''mime_type'', JStr ''image/jpeg''), (''data'', JStr ''AAAA'')])]])])]])]"

text \<open>
  An environment: the image model answers with an inline JPEG of 2048 by 1536, the video
  model starts an operation that never completes, and every write succeeds.
\<close>

definition exampleEnv :: Env where
  "exampleEnv =
     \<lparr>sharp = toySharp,
      GOOGLE_API_KEY = Some ''key'',
      GEMINI_IMAGE_MODEL_env = None,
      generateContent = (\<lambda>req. Http 200 [] (Inr imageResponse)),
      generateVideos = (\<lambda>req. Http 200 [] (Inr (JObj [(''name'', JStr ''operations/1'')]))),
      getOperation = (\<lambda>name k. Http 200 [] (Inr (JObj [(''done'', JBool False)]))),
      fetchUri = (\<lambda>uri. Downloaded 200 [7, 7]),
      toBase64 = (\<lambda>bs. ''AAAA''),
      fromBase64 = (\<lambda>s. [1, 32, 24]),
      stringify = (\<lambda>j. ''{}''),
      themeFile = (\<lambda>name. if name = ''paper.png'' then Some [0, 16, 16] else None),
      writeFileError = (\<lambda>path. None),
      dateNow = (\<lambda>k. 1000 + k)\<rparr>"

definition exampleWorld :: World where
  "exampleWorld = \<lparr>store = exampleStore, heap = exampleHeap, outputs = Map.empty\<rparr>"

text \<open>Two Buffers of \<open>jpegHeap\<close>, and a thread whose last image is the second.\<close>

definition jpegBuffer :: Buffer where
  "jpegBuffer = \<lparr>region = 0, byteOffset = 0, byteLength = 3\<rparr>"

definition pngBuffer :: Buffer where
  "pngBuffer = \<lparr>region = 1, byteOffset = 0, byteLength = 3\<rparr>"

definition threadWithImage :: ThreadState where
  "threadWithImage = \<lparr>messages = [], lastImage = Some pngBuffer, lastImageMime = Some ''image/webp''\<rparr>"


text \<open>
  The same environment with a video operation that completes on the third poll, and
  one that reports an error on the fourth.
\<close>

definition completedOperation :: json where
  "completedOperation =
     JObj [(''done'', JBool True),
           (''result'', JObj [(''generated_videos'',
              JArr [JObj [(''video'', JObj [(''uri'', JStr ''https://files.example/v.mp4'')])]])])]"

definition videoEnv :: Env where
  "videoEnv =
     exampleEnv\<lparr>getOperation := (\<lambda>name k.
       if k < 2 then Http 200 [] (Inr (JObj [(''done'', JBool False)]))
       else Http 200 [] (Inr completedOperation))\<rparr>"





definition imageRequestBody :: RequestBody where
  "imageRequestBody = JsonBody (JObj [(''message'', JStr ''make it blue'')])"

definition videoRequestBody :: RequestBody where
  "videoRequestBody = JsonBody (JObj [(''message'', JStr ''animate it''), (''model'', JStr ''veo-3'')])"

text \<open>A form with a prompt and an uploaded file that is not an image (region 1).\<close>

definition undecodableUpload :: RequestBody where
  "undecodableUpload =
     FormData (\<lambda>k. if k = ''message'' then Some (FormString ''make it blue'')
                    else if k = ''file''
                    then Some (FormFile \<lparr>region = 1, byteOffset = 0, byteLength = 2\<rparr>)
                    else None)"

text \<open>
  A response whose first part is a data-URI text and whose second part is inline data.
\<close>

definition textBeforeInline :: json where
  "textBeforeInline =
     JObj [(''candidates'',
       JArr [JObj [(''content'',
         JObj [(''parts'',
           JArr [JObj [(''text'', JStr ''data:image/png;base64,AAAA'')],
                 JObj [(''inline_data'',
                   JObj [(''mime_type'', JStr ''image/jpeg''), (''data'', JStr ''BBBB'')])]])])]])]"

section \<open>Facts about the store\<close>

lemma threadOf_putThread:
  "threadOf (putThread st sid tid t) sid' tid' =
     (if sid' = sid \<and> tid' = tid then Some t else threadOf st sid' tid')"
  by (auto simp: threadOf_def putThread_def getSession_def split: option.splits)

lemma threadOf_getThread:
  "threadOf (snd (getThread st sid tid)) sid' tid' =
     (if sid' = sid \<and> tid' = tid \<and> threadOf st sid tid = None then Some emptyThread
      else threadOf st sid' tid')"
  by (auto simp: threadOf_def getThread_def putThread_def getSession_def split: option.splits)

lemma fst_getThread:
  "fst (getThread st sid tid) = (case threadOf st sid tid of None \<Rightarrow> emptyThread | Some t \<Rightarrow> t)"
  by (auto simp: threadOf_def getThread_def getSession_def split: option.splits)

lemma messages_fst_getThread:
  "messages (fst (getThread st sid tid)) = messagesOf st sid tid"
  by (simp add: fst_getThread messagesOf_def emptyThread_def split: option.splits)

lemma hasMedia_last_filter:
  "filter hasMedia xs \<noteq> [] \<Longrightarrow> hasMedia (last (filter hasMedia xs))"
  using last_in_set [of "filter hasMedia xs"] by simp


lemma messagesOf_putThread:
  "messagesOf (putThread st sid tid t) sid' tid' =
     (if sid' = sid \<and> tid' = tid then messages t else messagesOf st sid' tid')"
  by (simp add: messagesOf_def threadOf_putThread)

lemma messagesOf_getThread:
  "messagesOf (snd (getThread st sid tid)) sid' tid' = messagesOf st sid' tid'"
  by (simp add: messagesOf_def threadOf_getThread emptyThread_def)

lemma lastArtifactOf_getThread:
  "lastArtifactOf (snd (getThread st sid tid)) sid' tid' = lastArtifactOf st sid' tid'"
  by (simp add: lastArtifactOf_def threadOf_getThread emptyThread_def)

lemma lastArtifact_fst_getThread:
  "(lastImage (fst (getThread st sid tid)), lastImageMime (fst (getThread st sid tid))) =
     lastArtifactOf st sid tid"
  by (simp add: fst_getThread lastArtifactOf_def emptyThread_def split: option.splits)

lemma messagesOf_addMessage:
  "messagesOf (addMessage st sid tid m) sid' tid' =
     (if sid' = sid \<and> tid' = tid then messagesOf st sid tid @ [m] else messagesOf st sid' tid')"
proof -
  obtain t st1 where g: "getThread st sid tid = (t, st1)"
    by (cases "getThread st sid tid")
  have t: "messages t = messagesOf st sid tid"
    using messages_fst_getThread [of st sid tid] g by simp
  have st1: "messagesOf st1 sid' tid' = messagesOf st sid' tid'"
    using messagesOf_getThread [of st sid tid sid' tid'] g by simp
  show ?thesis
    by (simp add: addMessage_def g messagesOf_putThread t st1)
qed

lemma lastArtifactOf_addMessage:
  "lastArtifactOf (addMessage st sid tid m) sid' tid' = lastArtifactOf st sid' tid'"
proof -
  obtain t st1 where g: "getThread st sid tid = (t, st1)"
    by (cases "getThread st sid tid")
  have t: "(lastImage t, lastImageMime t) = lastArtifactOf st sid tid"
    using lastArtifact_fst_getThread [of st sid tid] g by simp
  have st1: "lastArtifactOf st1 sid' tid' = lastArtifactOf st sid' tid'"
    using lastArtifactOf_getThread [of st sid tid sid' tid'] g by simp
  show ?thesis
    using t st1
    by (auto simp: addMessage_def g lastArtifactOf_def threadOf_putThread)
qed

lemma messagesOf_setLastImage:
  "messagesOf (setLastImage st sid tid b mime) sid' tid' = messagesOf st sid' tid'"
proof -
  obtain t st1 where g: "getThread st sid tid = (t, st1)"
    by (cases "getThread st sid tid")
  have t: "messages t = messagesOf st sid tid"
    using messages_fst_getThread [of st sid tid] g by simp
  have st1: "messagesOf st1 sid' tid' = messagesOf st sid' tid'"
    using messagesOf_getThread [of st sid tid sid' tid'] g by simp
  show ?thesis
    by (simp add: setLastImage_def g messagesOf_putThread t st1)
qed

lemma lastArtifactOf_setLastImage:
  "lastArtifactOf (setLastImage st sid tid b mime) sid' tid' =
     (if sid' = sid \<and> tid' = tid then (Some b, Some mime) else lastArtifactOf st sid' tid')"
proof -
  obtain t st1 where g: "getThread st sid tid = (t, st1)"
    by (cases "getThread st sid tid")
  have st1: "lastArtifactOf st1 sid' tid' = lastArtifactOf st sid' tid'"
    using lastArtifactOf_getThread [of st sid tid sid' tid'] g by simp
  show ?thesis
    using st1
    by (auto simp: setLastImage_def g lastArtifactOf_def threadOf_putThread)
qed


section \<open>Cloning a thread\<close>

text \<open>
  C5. The clone of a thread with N messages has N messages when no message of the source
  carries an image or video reference, and N + 1 when one does: the copied log followed
  by one assistant message whose id ends in "-inherited", with the text "Inherited from
  parent node" and the image and video references of the source's latest message that
  carries one. A source thread that
  does not exist is created empty, so N = 0 there.
\<close>

theorem cloneThread_messages:
  assumes "cloneThread now rnd st sid src new = (cid, st')"
  shows "\<exists>cl. threadOf st' sid cid = Some cl \<and>
     (let srcMsgs = messagesOf st sid (case src of None \<Rightarrow> ''default'' | Some s \<Rightarrow> s) in
      ((\<forall>m \<in> set srcMsgs. \<not> hasMedia m) \<longrightarrow>
          messages cl = srcMsgs \<and> length (messages cl) = length srcMsgs) \<and>
      ((\<exists>m \<in> set srcMsgs. hasMedia m) \<longrightarrow>
          (\<exists>inh. messages cl = srcMsgs @ [inh] \<and>
                 length (messages cl) = length srcMsgs + 1 \<and>
                 msgId inh = decimal (now 1) @ ''-inherited'' \<and>
                 role inh = Assistant \<and>
                 msgText inh = Some ''Inherited from parent node'' \<and>
                 imageUrl inh = imageUrl (last (filter hasMedia srcMsgs)) \<and>
                 videoUrl inh = videoUrl (last (filter hasMedia srcMsgs)) \<and>
                 hasMedia inh)))"
proof -
  define srcId where "srcId = (case src of None \<Rightarrow> ''default'' | Some s \<Rightarrow> s)"
  define source where "source = fst (getThread st sid srcId)"
  define st1 where "st1 = snd (getThread st sid srcId)"
  define srcMsgs where "srcMsgs = messagesOf st sid srcId"
  have gt: "getThread st sid srcId = (source, st1)"
    by (simp add: source_def st1_def)
  have msgs: "messages source = srcMsgs"
    by (simp add: source_def srcMsgs_def messages_fst_getThread)
  show ?thesis
  proof (cases "filter hasMedia srcMsgs = []")
    case True
    then have none: "\<forall>m \<in> set srcMsgs. \<not> hasMedia m"
      by (simp add: filter_empty_conv)
    from assms True show ?thesis
      unfolding cloneThread_def srcId_def [symmetric] gt
      using none
      by (auto simp: Let_def msgs lastOf_def threadOf_putThread srcMsgs_def [symmetric])
  next
    case False
    then have some: "\<exists>m \<in> set srcMsgs. hasMedia m"
      by (simp add: filter_empty_conv)
    have lo: "lastOf (filter hasMedia srcMsgs) = Some (last (filter hasMedia srcMsgs))"
      using False by (simp add: lastOf_def split: list.splits)
    have hm: "hasMedia (last (filter hasMedia srcMsgs))"
      using False by (rule hasMedia_last_filter)
    from assms show ?thesis
      unfolding cloneThread_def srcId_def [symmetric] gt
      using some hm
      by (auto simp: Let_def msgs lo threadOf_putThread srcMsgs_def [symmetric] hasMedia_def)
  qed
qed


lemmas example_store_defs =
  exampleStore_def exampleLog_def cloneThread_def getThread_def getSession_def putThread_def
  orElse_def freshThreadId_def lastOf_def hasMedia_def threadOf_def messagesOf_def
  bufSlice_def emptyThread_def

theorem cloneThread_messages_witness:
  "(let r = cloneThread (\<lambda>k. 200 + k) 42 exampleStore ''s'' (Some ''default'') (Some ''fork'')
    in fst r = ''fork'' \<and>
       (\<exists>inh. map_option messages (threadOf (snd r) ''s'' ''fork'') = Some (exampleLog @ [inh]) \<and>
              role inh = Assistant \<and> imageUrl inh = Some ''/outputs/s/101.png'' \<and>
              videoUrl inh = None)) \<and>
   (let r = cloneThread (\<lambda>k. 200 + k) 42 exampleStore ''s'' (Some ''other'') (Some ''fork'')
    in map_option messages (threadOf (snd r) ''s'' ''fork'') = Some [])"
  using
    cloneThread_messages [of "\<lambda>k. 200 + k" 42 exampleStore "''s''" "Some ''default''" "Some ''fork''"
      "fst (cloneThread (\<lambda>k. 200 + k) 42 exampleStore ''s'' (Some ''default'') (Some ''fork''))"
      "snd (cloneThread (\<lambda>k. 200 + k) 42 exampleStore ''s'' (Some ''default'') (Some ''fork''))"]
    cloneThread_messages [of "\<lambda>k. 200 + k" 42 exampleStore "''s''" "Some ''other''" "Some ''fork''"
      "fst (cloneThread (\<lambda>k. 200 + k) 42 exampleStore ''s'' (Some ''other'') (Some ''fork''))"
      "snd (cloneThread (\<lambda>k. 200 + k) 42 exampleStore ''s'' (Some ''other'') (Some ''fork''))"]
  by (simp add: example_store_defs Let_def)

text \<open>
  The clone's \<open>lastImage\<close> is \<open>source.lastImage.slice()\<close>: a second view of the same
  region, at the same offset and of the same length.
\<close>

lemma bufSlice_whole: "bufSlice b 0 (byteLength b) = b"
  by (simp add: bufSlice_def)

lemma cloneThread_lastImage:
  assumes "cloneThread now rnd st sid src new = (cid, st')"
  shows "map_option lastImage (threadOf st' sid cid) =
         Some (lastImage (fst (getThread st sid (case src of None \<Rightarrow> ''default'' | Some s \<Rightarrow> s))))"
  using assms
  by (auto simp: cloneThread_def Let_def threadOf_putThread bufSlice_whole
           split: prod.splits option.splits)

text \<open>
  C4. The clone's artifact is not an independent copy. In the example store the source
  thread's last image views region 0, holding the bytes 0, 16, 16. After \<open>cloneThread\<close>
  the clone's last image views the same region: writing 9 at index 0 through the clone's
  Buffer changes the bytes read through the source's.
\<close>

theorem cloneThread_artifact_shares_memory:
  "let r = cloneThread (\<lambda>k. 200 + k) 42 exampleStore ''s'' (Some ''default'') (Some ''fork'');
       src = the (lastImage (the (threadOf (snd r) ''s'' ''default'')));
       cl = the (lastImage (the (threadOf (snd r) ''s'' ''fork'')));
       m' = writeByte exampleMemory cl 0 9
   in bufferBytes exampleMemory src = [0, 16, 16] \<and>
      bufferBytes exampleMemory cl = [0, 16, 16] \<and>
      region cl = region src \<and>
      bufferBytes m' src = [9, 16, 16]"
  by (simp add: example_store_defs Let_def exampleMemory_def writeByte_def bufferBytes_def)

text \<open>
  What does hold of the clone: its message log is a list of its own, and deleting the
  source thread (another key) leaves the clone's entry as it was.
\<close>

lemma threadOf_deleteThread:
  "threadOf (snd (deleteThread st sid tid)) sid' tid' =
     (if sid' = sid \<and> tid' = tid then None else threadOf st sid' tid')"
  by (auto simp: threadOf_def deleteThread_def getSession_def split: option.splits)

lemma deleteThread_source_keeps_clone:
  assumes "cloneThread now rnd st sid (Some src) new = (cid, st')" and "cid \<noteq> src"
  shows "threadOf (snd (deleteThread st' sid src)) sid cid = threadOf st' sid cid"
  using assms by (simp add: threadOf_deleteThread)

section \<open>Memory and the normalizer\<close>

lemma extends_refl: "extends h h"
  by (simp add: extends_def)

lemma extends_trans: "extends h h1 \<Longrightarrow> extends h1 h2 \<Longrightarrow> extends h h2"
  by (auto simp: extends_def)

lemma alloc_extends: "alloc h bs = (b, h') \<Longrightarrow> extends h h'"
  by (auto simp: alloc_def extends_def)

lemma alloc_bytes: "alloc h bs = (b, h') \<Longrightarrow> bufferBytes (mem h') b = bs"
  by (auto simp: alloc_def bufferBytes_def)

lemma alloc_allocated: "alloc h bs = (b, h') \<Longrightarrow> allocated h' b"
  by (auto simp: alloc_def allocated_def)

lemma extends_bytes: "extends h h' \<Longrightarrow> allocated h b \<Longrightarrow> bufferBytes (mem h') b = bufferBytes (mem h) b"
  by (simp add: extends_def allocated_def bufferBytes_def)

lemma extends_allocated: "extends h h' \<Longrightarrow> allocated h b \<Longrightarrow> allocated h' b"
  by (simp add: extends_def allocated_def)

lemma enforcePng1024_extends:
  "enforcePng1024 S h input = (r, h') \<Longrightarrow> extends h h'"
  by (auto simp: enforcePng1024_def Let_def extends_refl split: sum.splits if_splits prod.splits dest: alloc_extends)

lemma enforcePng1024_allocated:
  "enforcePng1024 S h input = (Inr b, h') \<Longrightarrow> allocated h input \<Longrightarrow> allocated h' b"
  by (auto simp: enforcePng1024_def Let_def  split: sum.splits if_splits prod.splits dest: alloc_allocated)

text \<open>The centred square crop of an image that is not empty lies inside the image.\<close>

lemma centerCrop_inBounds:
  assumes "0 < w" and "0 < ht"
  shows "inBounds (centerCrop w ht) w ht"
proof -
  have "(w - min w ht) div 2 + min w ht \<le> w"
    by (rule order_trans [of _ "(w - min w ht) + min w ht"]) simp_all
  moreover have "(ht - min w ht) div 2 + min w ht \<le> ht"
    by (rule order_trans [of _ "(ht - min w ht) + min w ht"]) simp_all
  ultimately show ?thesis
    using assms by (simp add: inBounds_def centerCrop_def Let_def)
qed

text \<open>
  C3. On bytes that decode as an image, \<open>enforcePng1024\<close> returns a Buffer whose
  bytes sharp reads as a 1024 by 1024 PNG; an input that already is one is returned
  itself, with nothing allocated; and normalizing the result again returns it unchanged.
  Decoding is a property of the bytes alone (\<open>decodable\<close>); that the call of the
  pipeline succeeds follows from the crop lying inside the image. What is taken of sharp
  is \<open>sharpContract\<close>: it extracts exactly the regions inside an image that renders,
  and the PNG it writes at 1024 by 1024 reads back as such.
\<close>

theorem enforcePng1024_canonical_idempotent:
  assumes contract: "sharpContract S"
      and dec: "decodable S (bufferBytes (mem h) input)"
  shows "\<exists>out h'.
           enforcePng1024 S h input = (Inr out, h') \<and>
           canonical S (bufferBytes (mem h') out) \<and>
           (canonical S (bufferBytes (mem h) input) \<longrightarrow> out = input \<and> h' = h) \<and>
           enforcePng1024 S h' out = (Inr out, h')"
proof -
  define x where "x = bufferBytes (mem h) input"
  from dec obtain meta w ht where
    meta: "metadata S x = Inr meta" and w: "width meta = Some w" and ht: "height meta = Some ht"
    and pos: "0 < w" "0 < ht" and whole: "renders S x (wholeImage w ht)"
    by (auto simp: decodable_def x_def split: sum.splits option.splits)
  have "renders S x (centerCrop w ht) = (renders S x (wholeImage w ht) \<and> inBounds (centerCrop w ht) w ht)"
    using contract meta w ht unfolding sharpContract_def by blast
  with whole pos have "renders S x (centerCrop w ht)"
    by (simp add: centerCrop_inBounds)
  then obtain rendered where
    out: "extractResizePng S x (centerCrop w ht) TARGET_SIZE TARGET_SIZE = Inr rendered"
    by (auto simp: renders_def split: sum.splits)
  have fast: "canonical S y \<Longrightarrow> enforcePng1024 S g b = (Inr b, g)" if "bufferBytes (mem g) b = y" for y g b
    using that by (auto simp: canonical_def enforcePng1024_def Let_def split: sum.splits)
  show ?thesis
  proof (cases "w = TARGET_SIZE \<and> ht = TARGET_SIZE \<and> format meta = Some ''png''")
    case True
    then have can: "canonical S x"
      by (simp add: canonical_def meta w ht)
    then have "enforcePng1024 S h input = (Inr input, h)"
      by (rule fast [OF x_def [symmetric]])
    with can show ?thesis
      by (simp add: x_def)
  next
    case False
    obtain b h' where al: "alloc h rendered = (b, h')"
      by (cases "alloc h rendered")
    have run: "enforcePng1024 S h input = (Inr b, h')"
      using False meta w ht out al
      by (auto simp: enforcePng1024_def x_def [symmetric] Let_def)
    have bytes: "bufferBytes (mem h') b = rendered"
      using al by (rule alloc_bytes)
    have can: "canonical S rendered"
      using contract out unfolding sharpContract_def by blast
    have notcan: "\<not> canonical S x"
      using False by (auto simp: canonical_def meta w ht)
    have again: "enforcePng1024 S h' b = (Inr b, h')"
      using can by (rule fast [OF bytes])
    show ?thesis
      using run bytes can notcan again by (simp add: x_def)
  qed
qed

lemmas toy_defs = toySharp_def toyMetadata_def

lemma toySharp_contract: "sharpContract toySharp"
  unfolding sharpContract_def
proof (intro conjI allI impI)
  fix x meta w ht r
  assume "metadata toySharp x = Inr meta \<and> width meta = Some w \<and> height meta = Some ht"
  then show "renders toySharp x r =
               (renders toySharp x (wholeImage w ht) \<and> inBounds r w ht)"
    by (auto simp: renders_def toy_defs TARGET_SIZE_def wholeImage_def inBounds_def
             split: list.splits if_splits)
next
  fix x r rendered
  assume "extractResizePng toySharp x r TARGET_SIZE TARGET_SIZE = Inr rendered"
  then show "canonical toySharp rendered"
    by (auto simp: canonical_def toy_defs TARGET_SIZE_def split: list.splits if_splits)
qed

theorem enforcePng1024_canonical_idempotent_witness:
  "sharpContract toySharp \<and>
   decodable toySharp (bufferBytes (mem jpegHeap) \<lparr>region = 0, byteOffset = 0, byteLength = 3\<rparr>) \<and>
   (\<exists>out h'.
      enforcePng1024 toySharp jpegHeap \<lparr>region = 0, byteOffset = 0, byteLength = 3\<rparr> = (Inr out, h') \<and>
      bufferBytes (mem h') out = [0, 16, 16] \<and>
      canonical toySharp (bufferBytes (mem h') out) \<and>
      enforcePng1024 toySharp h' out = (Inr out, h')) \<and>
   canonical toySharp (bufferBytes (mem jpegHeap) \<lparr>region = 1, byteOffset = 0, byteLength = 3\<rparr>) \<and>
   enforcePng1024 toySharp jpegHeap \<lparr>region = 1, byteOffset = 0, byteLength = 3\<rparr> =
     (Inr \<lparr>region = 1, byteOffset = 0, byteLength = 3\<rparr>, jpegHeap)"
proof -
  let ?jpeg = "\<lparr>region = 0, byteOffset = 0, byteLength = 3\<rparr>"
  let ?png = "\<lparr>region = 1, byteOffset = 0, byteLength = 3\<rparr>"
  have c: "sharpContract toySharp"
    by (rule toySharp_contract)
  have d: "decodable toySharp (bufferBytes (mem jpegHeap) ?jpeg)"
    by (simp add: decodable_def renders_def wholeImage_def inBounds_def toy_defs jpegHeap_def
          bufferBytes_def TARGET_SIZE_def)
  have d': "decodable toySharp (bufferBytes (mem jpegHeap) ?png)"
    by (simp add: decodable_def renders_def wholeImage_def inBounds_def toy_defs jpegHeap_def
          bufferBytes_def TARGET_SIZE_def)
  have can: "canonical toySharp (bufferBytes (mem jpegHeap) ?png)"
    by (simp add: canonical_def toy_defs jpegHeap_def bufferBytes_def TARGET_SIZE_def)
  from enforcePng1024_canonical_idempotent [OF c d]
  obtain out h' where
    r: "enforcePng1024 toySharp jpegHeap ?jpeg = (Inr out, h')"
    and rest: "canonical toySharp (bufferBytes (mem h') out)"
         "enforcePng1024 toySharp h' out = (Inr out, h')"
    by blast
  have "bufferBytes (mem h') out = [0, 16, 16]"
    using r
    by (auto simp: enforcePng1024_def toy_defs jpegHeap_def bufferBytes_def TARGET_SIZE_def
          centerCrop_def inBounds_def Let_def alloc_def split: if_splits)
  moreover have "enforcePng1024 toySharp jpegHeap ?png = (Inr ?png, jpegHeap)"
    using enforcePng1024_canonical_idempotent [OF c d'] can by auto
  ultimately show ?thesis
    using c d r rest can by blast
qed

section \<open>Facts about the handler\<close>

lemma generateOrEditImage_extends:
  "generateOrEditImage env h prompt base modelId templateId = (r, h') \<Longrightarrow> extends h h'"
  by (auto simp: generateOrEditImage_def extends_refl
           split: if_splits HttpResult.splits sum.splits prod.splits dest: alloc_extends)

lemma generateVideo_extends:
  "extends h (videoHeap (generateVideo env h prompt base))"
  by (auto simp: generateVideo_def extends_refl Let_def
           split: if_splits HttpResult.splits sum.splits prod.splits dest: alloc_extends)

lemma generateVideo_fail_heap:
  "videoResult (generateVideo env h prompt base) = Inl e \<Longrightarrow>
   videoHeap (generateVideo env h prompt base) = h"
  by (auto simp: generateVideo_def Let_def
           split: if_splits HttpResult.splits sum.splits prod.splits)

lemma loadTheme_extends:
  "loadTheme env h themeName = (r, h') \<Longrightarrow> extends h h'"
  by (auto simp: loadTheme_def extends_refl
           split: if_splits option.splits sum.splits prod.splits
           dest!: alloc_extends enforcePng1024_extends intro: extends_trans)

lemma resolveBase_extends:
  "resolveBase env h upload themeName t = (r, h') \<Longrightarrow> extends h h'"
  by (auto simp: resolveBase_def extends_refl
           split: if_splits option.splits sum.splits prod.splits
           dest!: loadTheme_extends enforcePng1024_extends intro: extends_trans)

lemma generationStep_fail:
  assumes "generationStep env w sid tid prompt modelId base = (Inl e, w')"
  shows "store w' = store w \<and> outputs w' = outputs w \<and> extends (heap w) (heap w')"
proof (cases "modelId = Some ''veo-3''")
  case True
  with assms show ?thesis
    using generateVideo_extends [of "heap w" env prompt base]
    by (auto simp: generationStep_def Let_def split: sum.splits option.splits)
next
  case False
  with assms show ?thesis
    by (auto simp: generationStep_def Let_def split: sum.splits option.splits prod.splits
             dest!: generateOrEditImage_extends enforcePng1024_extends intro: extends_trans)
qed

lemma generationStep_video_ok:
  assumes "generationStep env w sid tid prompt (Some ''veo-3'') base = (Inr msg, w')"
  shows "\<exists>video. videoResult (generateVideo env (heap w) prompt base) = Inr video \<and>
           heap w' = videoHeap (generateVideo env (heap w) prompt base) \<and>
           store w' = addMessage (store w) sid tid msg \<and>
           role msg = Assistant \<and> msgText msg = None \<and> imageUrl msg = None \<and>
           videoUrl msg = Some (videoUrlFor env sid) \<and>
           outputs w' = (outputs w)(''public'' @ videoUrlFor env sid \<mapsto> bufferBytes (mem (heap w')) video)"
  using assms
  by (auto simp: generationStep_def Let_def videoUrlFor_def split: sum.splits option.splits)

lemma generationStep_image_ok:
  assumes "generationStep env w sid tid prompt modelId base = (Inr msg, w')"
      and "modelId \<noteq> Some ''veo-3''"
  shows "\<exists>generated mime h1 png.
           generateOrEditImage env (heap w) prompt base modelId None = (Inr (generated, mime), h1) \<and>
           enforcePng1024 (sharp env) h1 generated = (Inr png, heap w') \<and>
           store w' = addMessage (setLastImage (store w) sid tid png ''image/png'') sid tid msg \<and>
           role msg = Assistant \<and> msgText msg = None \<and> videoUrl msg = None \<and>
           imageUrl msg = Some (imageUrlFor env sid) \<and>
           outputs w' = (outputs w)(''public'' @ imageUrlFor env sid \<mapsto> bufferBytes (mem (heap w')) png)"
  using assms
  by (auto simp: generationStep_def Let_def imageUrlFor_def split: sum.splits option.splits prod.splits)

lemma POST_cases:
  assumes "POST env w sid body = (resp, w')"
  obtains
    (malformed) msg where "body = Malformed msg"
      "resp = Json 400 (ErrorBody (''Invalid request: '' @ msg))" "w' = w"
  | (missing) req where "parseBody body = Inr req" "promptText (reqPrompt req) = None"
      "resp = Json 400 (ErrorBody ''Missing message'')" "w' = w"
  | (thrown) req prompt e h1 where "parseBody body = Inr req"
      "promptText (reqPrompt req) = Some prompt"
      "resolveBase env (heap w) (reqUpload req) (reqTheme req)
         (threadAfterUser env (store w) sid (reqThread req) prompt) = (Inl e, h1)"
      "resp = Thrown e"
      "w' = w\<lparr>store := storeAfterUser env (store w) sid (reqThread req) prompt, heap := h1\<rparr>"
  | (failed) req prompt base h1 e w1 where "parseBody body = Inr req"
      "promptText (reqPrompt req) = Some prompt"
      "resolveBase env (heap w) (reqUpload req) (reqTheme req)
         (threadAfterUser env (store w) sid (reqThread req) prompt) = (Inr base, h1)"
      "generationStep env (w\<lparr>store := storeAfterUser env (store w) sid (reqThread req) prompt, heap := h1\<rparr>)
         sid (reqThread req) prompt (reqModel req) base = (Inl e, w1)"
      "resp = Json 500 (ErrorBody (''Error: '' @ errorMessage e))"
      "w' = w1\<lparr>store := addMessage (store w1) sid (reqThread req) (errorReply env e)\<rparr>"
  | (succeeded) req prompt base h1 msg where "parseBody body = Inr req"
      "promptText (reqPrompt req) = Some prompt"
      "resolveBase env (heap w) (reqUpload req) (reqTheme req)
         (threadAfterUser env (store w) sid (reqThread req) prompt) = (Inr base, h1)"
      "generationStep env (w\<lparr>store := storeAfterUser env (store w) sid (reqThread req) prompt, heap := h1\<rparr>)
         sid (reqThread req) prompt (reqModel req) base = (Inr msg, w')"
      "resp = Json 200 (MessageBody (reqThread req) msg)"
proof (cases "parseBody body")
  case (Inl msg)
  then have "body = Malformed msg"
    by (auto simp: parseBody_def split: RequestBody.splits)
  with assms Inl show ?thesis
    by (auto simp: POST_def intro: malformed)
next
  case (Inr req)
  show ?thesis
  proof (cases "promptText (reqPrompt req)")
    case None
    with assms Inr show ?thesis
      by (auto simp: POST_def intro: missing)
  next
    case (Some prompt)
    let ?tid = "reqThread req"
    let ?t = "threadAfterUser env (store w) sid ?tid prompt"
    let ?st2 = "storeAfterUser env (store w) sid ?tid prompt"
    have gt: "getThread (addMessage (store w) sid ?tid (userMessage env prompt)) sid ?tid = (?t, ?st2)"
      by (simp add: threadAfterUser_def storeAfterUser_def)
    obtain r h1 where rb: "resolveBase env (heap w) (reqUpload req) (reqTheme req) ?t = (r, h1)"
      by (cases "resolveBase env (heap w) (reqUpload req) (reqTheme req) ?t")
    show ?thesis
    proof (cases r)
      case (Inl e)
      with assms Inr Some rb gt show ?thesis
        by (auto simp: POST_def Let_def intro: thrown)
    next
      case r: (Inr base)
      obtain g w1 where gs: "generationStep env (w\<lparr>store := ?st2, heap := h1\<rparr>) sid ?tid prompt
           (reqModel req) base = (g, w1)"
        by (cases "generationStep env (w\<lparr>store := ?st2, heap := h1\<rparr>) sid ?tid prompt (reqModel req) base")
      show ?thesis
      proof (cases g)
        case (Inl e)
        with assms Inr Some rb gt r gs show ?thesis
          by (auto simp: POST_def Let_def intro: failed)
      next
        case g: (Inr msg)
        with assms Inr Some rb gt r gs show ?thesis
          by (auto simp: POST_def Let_def intro: succeeded)
      qed
    qed
  qed
qed



lemma storeAfterUser_messages:
  "messagesOf (storeAfterUser env st sid tid prompt) sid' tid' =
     (if sid' = sid \<and> tid' = tid then messagesOf st sid tid @ [userMessage env prompt]
      else messagesOf st sid' tid')"
  by (simp add: storeAfterUser_def messagesOf_getThread messagesOf_addMessage)

lemma storeAfterUser_lastArtifact:
  "lastArtifactOf (storeAfterUser env st sid tid prompt) sid' tid' = lastArtifactOf st sid' tid'"
  by (simp add: storeAfterUser_def lastArtifactOf_getThread lastArtifactOf_addMessage)

lemma threadAfterUser_lastArtifact:
  "(lastImage (threadAfterUser env st sid tid prompt),
    lastImageMime (threadAfterUser env st sid tid prompt)) = lastArtifactOf st sid tid"
  by (simp add: threadAfterUser_def lastArtifact_fst_getThread lastArtifactOf_addMessage)


lemma userMessage_no_media: "\<not> hasMedia (userMessage env prompt)"
  by (simp add: userMessage_def hasMedia_def)

text \<open>
  The state after the generation step has thrown and the error reply is recorded: the
  thread has the user message and the error reply; nothing else has changed.
\<close>

lemma failed_state:
  assumes gen: "generationStep env
                  (w\<lparr>store := storeAfterUser env (store w) sid tid prompt, heap := h1\<rparr>)
                  sid tid prompt modelId base = (Inl e, w1)"
      and ext1: "extends (heap w) h1"
      and w': "w' = w1\<lparr>store := addMessage (store w1) sid tid (errorReply env e)\<rparr>"
  shows "(\<forall>s t. messagesOf (store w') s t =
            (if s = sid \<and> t = tid
             then messagesOf (store w) s t @ [userMessage env prompt, errorReply env e]
             else messagesOf (store w) s t)) \<and>
         (\<forall>s t. lastArtifactOf (store w') s t = lastArtifactOf (store w) s t) \<and>
         extends (heap w) (heap w') \<and> outputs w' = outputs w"
proof -
  let ?w0 = "w\<lparr>store := storeAfterUser env (store w) sid tid prompt, heap := h1\<rparr>"
  from generationStep_fail [OF gen]
  have st: "store w1 = store ?w0" and out: "outputs w1 = outputs ?w0"
    and ext: "extends (heap ?w0) (heap w1)"
    by simp_all
  from ext1 ext have "extends (heap w) (heap w')"
    using w' by (auto intro: extends_trans)
  with st out w' show ?thesis
    by (auto simp: messagesOf_addMessage lastArtifactOf_addMessage storeAfterUser_messages
                   storeAfterUser_lastArtifact)
qed

lemma POST_failure_recorded:
  assumes "POST env w sid body = (Json 500 rb, w')"
  shows "\<exists>req prompt e.
           parseBody body = Inr req \<and> promptText (reqPrompt req) = Some prompt \<and>
           rb = ErrorBody (''Error: '' @ errorMessage e) \<and>
           (\<forall>s t. messagesOf (store w') s t =
              (if s = sid \<and> t = reqThread req
               then messagesOf (store w) s t @ [userMessage env prompt, errorReply env e]
               else messagesOf (store w) s t)) \<and>
           (\<forall>s t. lastArtifactOf (store w') s t = lastArtifactOf (store w) s t) \<and>
           extends (heap w) (heap w') \<and> outputs w' = outputs w"
  using assms
proof (cases rule: POST_cases)
  case (failed req prompt base h1 e w1)
  have "extends (heap w) h1"
    using failed(3) by (rule resolveBase_extends)
  from failed_state [OF failed(4) this failed(6)] failed(1,2,5)
  show ?thesis by blast
qed simp_all

section \<open>Evaluating the examples\<close>

text \<open>The definitions that \<open>simp\<close> unfolds to run the handler on the examples.\<close>

lemmas eval_defs =
  POST_def parseBody_def promptText_def trimmed_def trim_def isWhite_def
  generationStep_def userMessage_def errorReply_def resolveBase_def loadTheme_def
  addMessage_def setLastImage_def getThread_def getSession_def putThread_def
  messagesOf_def threadOf_def lastArtifactOf_def emptyThread_def
  generateOrEditImage_def imageRequest_def parseImageResponse_def scanPart_def inlineOf_def
  topLevelImage_def arrayOrEmpty_def matchDataUri_def
  generateVideo_def videoRequest_def extractVideo_def pollOperation.simps maxAttempts_def
  enforcePng1024_def alloc_def bufferBytes_def centerCrop_def inBounds_def TARGET_SIZE_def
  ok_def
  decimal.simps orElse_def
  exampleEnv_def toySharp_def toyMetadata_def
  exampleWorld_def exampleStore_def exampleHeap_def exampleMemory_def imageResponse_def


section \<open>Requests without a prompt, and the base image\<close>

lemma POST_malformed:
  "POST env w sid (Malformed msg) = (Json 400 (ErrorBody (''Invalid request: '' @ msg)), w)"
  by (simp add: POST_def parseBody_def)

lemma promptText_JStr: "promptText (JStr s) = (if s = [] then None else Some s)"
  by (simp add: promptText_def)

lemma promptText_json_prompt:
  "asString v = None \<or> asString v = Some [] \<Longrightarrow>
   promptText (if truthyJson v then the v else JStr []) = None"
  by (cases v rule: truthyJson.cases) (auto simp: promptText_def)

text \<open>
  C10. A request whose body decodes and whose \<open>message\<close> is missing, not a string or
  empty is answered 400 "Missing message", and the state (store, memory and output
  files) is the one before the call. (A body that does not decode is answered 400
  "Invalid request" before that, \<open>POST_malformed\<close>, the state untouched as well.)
\<close>

theorem POST_missing_message:
  assumes "decoded body"
      and "messageField body = None \<or> messageField body = Some []"
  shows "POST env w sid body = (Json 400 (ErrorBody ''Missing message''), w)"
proof (cases body)
  case (FormData form)
  with assms(2) have "promptText (JStr (case formString (form ''message'') of
                                          Some m \<Rightarrow> m | None \<Rightarrow> [])) = None"
    by (auto simp: promptText_JStr)
  with FormData show ?thesis
    by (simp add: POST_def parseBody_def)
next
  case (JsonBody j)
  with assms(2) have "promptText (if truthyJson (getProp (Some j) ''message'')
                        then the (getProp (Some j) ''message'') else JStr []) = None"
    by (intro promptText_json_prompt) simp
  with JsonBody show ?thesis
    by (simp add: POST_def parseBody_def)
next
  case (Malformed msg)
  with assms(1) show ?thesis by simp
qed

theorem POST_missing_message_witness:
  "POST exampleEnv exampleWorld ''s'' (JsonBody (JObj [(''message'', JStr []), (''thread'', JStr ''t2'')]))
     = (Json 400 (ErrorBody ''Missing message''), exampleWorld) \<and>
   POST exampleEnv exampleWorld ''s'' (JsonBody (JObj [(''message'', JNum 5)]))
     = (Json 400 (ErrorBody ''Missing message''), exampleWorld) \<and>
   POST exampleEnv exampleWorld ''s''
      (FormData (\<lambda>k. if k = ''file'' then Some (FormFile \<lparr>region = 0, byteOffset = 0, byteLength = 3\<rparr>) else None))
     = (Json 400 (ErrorBody ''Missing message''), exampleWorld)"
  using
    POST_missing_message [of "JsonBody (JObj [(''message'', JStr []), (''thread'', JStr ''t2'')])"
      exampleEnv exampleWorld "''s''"]
    POST_missing_message [of "JsonBody (JObj [(''message'', JNum 5)])" exampleEnv exampleWorld "''s''"]
    POST_missing_message [of "FormData (\<lambda>k. if k = ''file'' then Some (FormFile \<lparr>region = 0, byteOffset = 0, byteLength = 3\<rparr>) else None)"
      exampleEnv exampleWorld "''s''"]
  by simp

lemma enforcePng1024_Inr_bytes:
  "enforcePng1024 S h b = (Inr b', h') \<Longrightarrow>
   normalizedBytes S (bufferBytes (mem h) b) = Some (bufferBytes (mem h') b')"
  by (auto simp: enforcePng1024_def normalizedBytes_def Let_def
           split: sum.splits if_splits prod.splits dest: alloc_bytes)

lemma enforcePng1024_Inl_bytes:
  "enforcePng1024 S h b = (Inl e, h') \<Longrightarrow> normalizedBytes S (bufferBytes (mem h) b) = None"
  by (auto simp: enforcePng1024_def normalizedBytes_def Let_def
           split: sum.splits if_splits prod.splits)

lemma loadTheme_Some:
  assumes "loadTheme env h themeName = (Some b, h')"
  shows "themeBytes env themeName = Some (bufferBytes (mem h') b) \<and> allocated h' b"
proof -
  from assms obtain raw rawBuffer h1 where
    t: "truthy themeName" and f: "themeFile env (basename (the themeName)) = Some raw"
    and al: "alloc h raw = (rawBuffer, h1)"
    and en: "enforcePng1024 (sharp env) h1 rawBuffer = (Inr b, h')"
    by (auto simp: loadTheme_def split: if_splits option.splits prod.splits sum.splits)
  have "bufferBytes (mem h1) rawBuffer = raw"
    using al by (rule alloc_bytes)
  with enforcePng1024_Inr_bytes [OF en] have "normalizedBytes (sharp env) raw = Some (bufferBytes (mem h') b)"
    by simp
  moreover have "allocated h' b"
    using en alloc_allocated [OF al] by (rule enforcePng1024_allocated)
  ultimately show ?thesis
    using t f by (simp add: themeBytes_def)
qed

lemma loadTheme_None:
  assumes "loadTheme env h themeName = (None, h')"
  shows "themeBytes env themeName = None"
proof (cases "truthy themeName \<and> themeFile env (basename (the themeName)) \<noteq> None")
  case False
  then show ?thesis
    by (auto simp: themeBytes_def)
next
  case True
  then obtain raw where t: "truthy themeName"
    and f: "themeFile env (basename (the themeName)) = Some raw"
    by auto
  obtain rawBuffer h1 where al: "alloc h raw = (rawBuffer, h1)"
    by (cases "alloc h raw")
  from assms t f al obtain e where en: "enforcePng1024 (sharp env) h1 rawBuffer = (Inl e, h')"
    by (auto simp: loadTheme_def split: prod.splits sum.splits)
  have "bufferBytes (mem h1) rawBuffer = raw"
    using al by (rule alloc_bytes)
  with enforcePng1024_Inl_bytes [OF en] show ?thesis
    using t f by (simp add: themeBytes_def)
qed

text \<open>
  C1. The base image is chosen by precedence. With an upload, it is the normalized
  upload as \<open>image/png\<close>, whatever the theme and the thread hold (and when sharp cannot
  decode the upload the error leaves the handler: no generation call is made). Without
  an upload, it is the normalized theme image when there is one. Without either, it is
  the thread's last image, the same Buffer with its bytes as they were, under the
  thread's MIME type. With none of the three there is no base image.
\<close>

theorem resolveBase_precedence:
  assumes run: "resolveBase env h upload themeName t = (r, h')"
      and inUse: "\<forall>b. upload = Some b \<or> lastImage t = Some b \<longrightarrow> allocated h b"
  shows "(\<forall>u. upload = Some u \<longrightarrow>
            (case normalizedBytes (sharp env) (bufferBytes (mem h) u) of
               Some nb \<Rightarrow> (\<exists>b. r = Inr (Some \<lparr>data = b, mimeType = ''image/png''\<rparr>) \<and>
                               bufferBytes (mem h') b = nb)
             | None \<Rightarrow> (\<exists>e. r = Inl e))) \<and>
         (upload = None \<longrightarrow>
            (case themeBytes env themeName of
               Some nb \<Rightarrow> (\<exists>b. r = Inr (Some \<lparr>data = b, mimeType = ''image/png''\<rparr>) \<and>
                               bufferBytes (mem h') b = nb)
             | None \<Rightarrow>
                 (case lastImage t of
                    Some b \<Rightarrow> r = Inr (Some \<lparr>data = b,
                                               mimeType = orElse (lastImageMime t) ''image/png''\<rparr>) \<and>
                              bufferBytes (mem h') b = bufferBytes (mem h) b
                  | None \<Rightarrow> r = Inr None)))"
proof (intro conjI allI impI)
  fix u
  assume up: "upload = Some u"
  obtain r1 h1 where en: "enforcePng1024 (sharp env) h u = (r1, h1)"
    by (cases "enforcePng1024 (sharp env) h u")
  show "case normalizedBytes (sharp env) (bufferBytes (mem h) u) of
          Some nb \<Rightarrow> (\<exists>b. r = Inr (Some \<lparr>data = b, mimeType = ''image/png''\<rparr>) \<and>
                          bufferBytes (mem h') b = nb)
        | None \<Rightarrow> (\<exists>e. r = Inl e)"
  proof (cases r1)
    case (Inl e)
    with en have "normalizedBytes (sharp env) (bufferBytes (mem h) u) = None"
      by (simp add: enforcePng1024_Inl_bytes)
    moreover from run up en Inl have "r = Inl e"
      by (simp add: resolveBase_def)
    ultimately show ?thesis by simp
  next
    case (Inr b)
    with en have nb: "normalizedBytes (sharp env) (bufferBytes (mem h) u) = Some (bufferBytes (mem h1) b)"
      by (simp add: enforcePng1024_Inr_bytes)
    obtain tb h2 where lt: "loadTheme env h1 themeName = (tb, h2)"
      by (cases "loadTheme env h1 themeName")
    from run up en Inr lt have r: "r = Inr (Some \<lparr>data = b, mimeType = ''image/png''\<rparr>)" and h2: "h' = h2"
      by (simp_all add: resolveBase_def)
    have "allocated h u"
      using inUse up by simp
    with en Inr have "allocated h1 b"
      by (simp add: enforcePng1024_allocated)
    moreover have "extends h1 h2"
      using lt by (rule loadTheme_extends)
    ultimately have "bufferBytes (mem h2) b = bufferBytes (mem h1) b"
      by (simp add: extends_bytes)
    with nb r h2 show ?thesis by simp
  qed
next
  assume up: "upload = None"
  obtain tb h2 where lt: "loadTheme env h themeName = (tb, h2)"
    by (cases "loadTheme env h themeName")
  from run up lt have h2: "h' = h2"
    by (simp add: resolveBase_def)
  show "case themeBytes env themeName of
          Some nb \<Rightarrow> (\<exists>b. r = Inr (Some \<lparr>data = b, mimeType = ''image/png''\<rparr>) \<and>
                          bufferBytes (mem h') b = nb)
        | None \<Rightarrow>
            (case lastImage t of
               Some b \<Rightarrow> r = Inr (Some \<lparr>data = b,
                                          mimeType = orElse (lastImageMime t) ''image/png''\<rparr>) \<and>
                         bufferBytes (mem h') b = bufferBytes (mem h) b
             | None \<Rightarrow> r = Inr None)"
  proof (cases tb)
    case (Some b)
    with lt have "themeBytes env themeName = Some (bufferBytes (mem h2) b)"
      by (simp add: loadTheme_Some)
    moreover from run up lt Some have "r = Inr (Some \<lparr>data = b, mimeType = ''image/png''\<rparr>)"
      by (simp add: resolveBase_def)
    ultimately show ?thesis
      using h2 by simp
  next
    case None
    with lt have tn: "themeBytes env themeName = None"
      by (simp add: loadTheme_None)
    have ext: "extends h h2"
      using lt by (rule loadTheme_extends)
    show ?thesis
    proof (cases "lastImage t")
      case li: None
      with run up lt None tn show ?thesis
        by (simp add: resolveBase_def)
    next
      case li: (Some b)
      then have "allocated h b"
        using inUse by simp
      with ext have "bufferBytes (mem h2) b = bufferBytes (mem h) b"
        by (simp add: extends_bytes)
      with run up lt None tn li h2 show ?thesis
        by (simp add: resolveBase_def)
    qed
  qed
qed


lemmas example_env_defs =
  exampleEnv_def toySharp_def toyMetadata_def jpegHeap_def jpegBuffer_def pngBuffer_def
  threadWithImage_def emptyThread_def

lemmas resolve_defs =
  resolveBase_def loadTheme_def enforcePng1024_def alloc_def bufferBytes_def centerCrop_def
  inBounds_def TARGET_SIZE_def basename_def orElse_def allocated_def

theorem resolveBase_precedence_witness:
  "resolveBase exampleEnv jpegHeap (Some jpegBuffer) (Some ''paper.png'') threadWithImage =
     (Inr (Some \<lparr>data = \<lparr>region = 2, byteOffset = 0, byteLength = 3\<rparr>, mimeType = ''image/png''\<rparr>),
      \<lparr>mem = (mem jpegHeap)(2 := [0, 16, 16], 3 := [0, 16, 16]), brk = 4\<rparr>) \<and>
   fst (resolveBase exampleEnv jpegHeap None (Some ''themes/paper.png'') threadWithImage) =
     Inr (Some \<lparr>data = \<lparr>region = 2, byteOffset = 0, byteLength = 3\<rparr>, mimeType = ''image/png''\<rparr>) \<and>
   resolveBase exampleEnv jpegHeap None (Some ''nothing.png'') threadWithImage =
     (Inr (Some \<lparr>data = pngBuffer, mimeType = ''image/webp''\<rparr>), jpegHeap) \<and>
   resolveBase exampleEnv jpegHeap None None emptyThread = (Inr None, jpegHeap) \<and>
   fst (resolveBase exampleEnv jpegHeap (Some (jpegBuffer\<lparr>byteLength := 2\<rparr>)) None threadWithImage) =
     Inl (LibraryError ''Input buffer contains unsupported image format'')"
  using
    resolveBase_precedence [of exampleEnv jpegHeap "Some jpegBuffer" "Some ''paper.png''" threadWithImage
      "fst (resolveBase exampleEnv jpegHeap (Some jpegBuffer) (Some ''paper.png'') threadWithImage)"
      "snd (resolveBase exampleEnv jpegHeap (Some jpegBuffer) (Some ''paper.png'') threadWithImage)"]
    resolveBase_precedence [of exampleEnv jpegHeap None "Some ''themes/paper.png''" threadWithImage
      "fst (resolveBase exampleEnv jpegHeap None (Some ''themes/paper.png'') threadWithImage)"
      "snd (resolveBase exampleEnv jpegHeap None (Some ''themes/paper.png'') threadWithImage)"]
    resolveBase_precedence [of exampleEnv jpegHeap None "Some ''nothing.png''" threadWithImage
      "fst (resolveBase exampleEnv jpegHeap None (Some ''nothing.png'') threadWithImage)"
      "snd (resolveBase exampleEnv jpegHeap None (Some ''nothing.png'') threadWithImage)"]
    resolveBase_precedence [of exampleEnv jpegHeap None None emptyThread
      "fst (resolveBase exampleEnv jpegHeap None None emptyThread)"
      "snd (resolveBase exampleEnv jpegHeap None None emptyThread)"]
  by (simp add: example_env_defs resolve_defs fun_eq_iff)


text \<open>
  The base image reaches the model as the inline-data part before the prompt; without
  one the user turn holds the prompt alone.
\<close>

lemma imageRequest_parts:
  "parts (imageRequest env h prompt baseImage modelId templateId) =
     (case baseImage of
        Some b \<Rightarrow> [InlineData (if mimeType b \<noteq> [] then mimeType b else ''image/png'')
                             (toBase64 env (bufferBytes (mem h) (data b))),
                   TextPart prompt]
      | None \<Rightarrow> [TextPart prompt])"
  by (simp add: imageRequest_def inlinePart_def split: option.splits)

lemma videoRequest_base_image:
  "base_image (videoRequest env h prompt baseImage) =
     (case baseImage of
        Some b \<Rightarrow> Some (if mimeType b \<noteq> [] then mimeType b else ''image/png'',
                        toBase64 env (bufferBytes (mem h) (data b)))
      | None \<Rightarrow> None)"
  by (simp add: videoRequest_def inlinePart_def split: option.splits)

section \<open>Polling a video operation\<close>

lemma pollOperation_pending_step:
  assumes "attempt < maxAttempts" and "pending (getOperation env name attempt)"
  shows "pollOperation env name attempt slept = pollOperation env name (attempt + 1) (slept + 5000)"
  using assms
  by (subst pollOperation.simps)
     (auto simp: pending_def split: HttpResult.splits sum.splits)






lemma extractVideo_Inr:
  "extractVideo env j = Inr body \<Longrightarrow>
   \<exists>uri status. fetchUri env uri = Downloaded status body \<and> ok status"
  by (auto simp: extractVideo_def Let_def split: if_splits Download.splits)

lemma pollOperation_Inr:
  "outcome (pollOperation env name attempt slept) = Inr body \<Longrightarrow>
   \<exists>uri status. fetchUri env uri = Downloaded status body \<and> ok status"
proof (induction "maxAttempts - attempt" arbitrary: attempt slept)
  case 0
  then show ?case
    by (subst (asm) pollOperation.simps) simp
next
  case (Suc n)
  then have lt: "attempt < maxAttempts" by simp
  show ?case
  proof (cases "pending (getOperation env name attempt)")
    case True
    have "outcome (pollOperation env name (attempt + 1) (slept + 5000)) = Inr body"
      using Suc.prems pollOperation_pending_step [OF lt True] by simp
    moreover have "n = maxAttempts - (attempt + 1)"
      using Suc.hyps(2) by simp
    ultimately show ?thesis
      by (rule Suc.hyps(1) [rotated])
  next
    case False
    with lt Suc.prems show ?thesis
      by (subst (asm) pollOperation.simps)
         (auto simp: pending_def split: HttpResult.splits sum.splits if_splits
               dest: extractVideo_Inr)
  qed
qed

lemma generateVideo_Inr_run:
  assumes "generateVideo env h prompt base = run" and "videoResult run = Inr video"
  shows "\<exists>name body. outcome (pollOperation env name 0 0) = Inr body \<and>
                     alloc h body = (video, videoHeap run)"
  using assms
  by (auto simp: generateVideo_def Let_def
           split: if_splits HttpResult.splits sum.splits prod.splits)
     blast

text \<open>
  The Buffer that a successful \<open>generateVideo\<close> returns holds the bytes downloaded from
  the video's \<open>uri\<close>.
\<close>

lemma generateVideo_Inr:
  assumes "videoResult (generateVideo env h prompt base) = Inr video"
  shows "\<exists>uri status.
           fetchUri env uri =
             Downloaded status (bufferBytes (mem (videoHeap (generateVideo env h prompt base))) video) \<and>
           ok status"
proof -
  from generateVideo_Inr_run [OF refl assms]
  obtain name body where
    p: "outcome (pollOperation env name 0 0) = Inr body"
    and al: "alloc h body = (video, videoHeap (generateVideo env h prompt base))"
    by blast
  from alloc_bytes [OF al] pollOperation_Inr [OF p] show ?thesis
    by simp
qed







lemma reportsDone_not_pending:
  "reportsDone res = Some checkJson \<Longrightarrow> \<not> pending res"
  by (auto simp: reportsDone_def pending_def split: HttpResult.splits sum.splits if_splits)




lemma errorPayload_not_pending:
  "errorPayload res \<Longrightarrow> \<not> pending res"
  by (auto simp: errorPayload_def pending_def split: HttpResult.splits sum.splits)




section \<open>What a successful generation records\<close>

text \<open>
  C9. A request answered with a message. The thread gains the user message and the
  assistant message of the response, and every Buffer that was in use holds the bytes
  it held. For the video model: the message has the video's locator; the one file
  written is the one behind that locator, and it holds the bytes of the Buffer that
  \<open>generateVideo\<close> returned on the resolved base image, which are the bytes
  downloaded from the video's \<open>uri\<close>; and the last artifact of every thread is the
  one before the call, the same Buffer and MIME type. For any other model: the message
  has the image's locator; the thread's last artifact is the Buffer that
  \<open>enforcePng1024\<close> returned for the image generated on the resolved base image, as
  \<open>image/png\<close>; the one file written holds its bytes; and the last artifact of every
  other thread is the one before the call.
\<close>

theorem POST_success_artifact:
  assumes post: "POST env w sid body = (Json 200 (MessageBody tid msg), w')"
  shows "\<exists>req prompt base h1.
           parseBody body = Inr req \<and> promptText (reqPrompt req) = Some prompt \<and>
           tid = reqThread req \<and> role msg = Assistant \<and>
           resolveBase env (heap w) (reqUpload req) (reqTheme req)
             (threadAfterUser env (store w) sid tid prompt) = (Inr base, h1) \<and>
           messagesOf (store w') sid tid =
             messagesOf (store w) sid tid @ [userMessage env prompt, msg] \<and>
           (\<forall>b. allocated (heap w) b \<longrightarrow>
                  bufferBytes (mem (heap w')) b = bufferBytes (mem (heap w)) b) \<and>
           (if reqModel req = Some ''veo-3''
            then videoUrl msg = Some (videoUrlFor env sid) \<and> imageUrl msg = None \<and>
                 (\<exists>video uri status.
                    videoResult (generateVideo env h1 prompt base) = Inr video \<and>
                    heap w' = videoHeap (generateVideo env h1 prompt base) \<and>
                    fetchUri env uri = Downloaded status (bufferBytes (mem (heap w')) video) \<and>
                    ok status \<and>
                    outputs w' =
                      (outputs w)(''public'' @ videoUrlFor env sid \<mapsto>
                        bufferBytes (mem (heap w')) video)) \<and>
                 (\<forall>s t. lastArtifactOf (store w') s t = lastArtifactOf (store w) s t)
            else imageUrl msg = Some (imageUrlFor env sid) \<and> videoUrl msg = None \<and>
                 (\<exists>generated mime h2 png.
                    generateOrEditImage env h1 prompt base (reqModel req) None =
                      (Inr (generated, mime), h2) \<and>
                    enforcePng1024 (sharp env) h2 generated = (Inr png, heap w') \<and>
                    lastArtifactOf (store w') sid tid = (Some png, Some ''image/png'') \<and>
                    outputs w' =
                      (outputs w)(''public'' @ imageUrlFor env sid \<mapsto>
                        bufferBytes (mem (heap w')) png)) \<and>
                 (\<forall>s t. (s, t) \<noteq> (sid, tid) \<longrightarrow>
                    lastArtifactOf (store w') s t = lastArtifactOf (store w) s t))"
  using post
proof (cases rule: POST_cases)
  case (succeeded req prompt base h1 m)
  let ?st0 = "storeAfterUser env (store w) sid (reqThread req) prompt"
  let ?w0 = "w\<lparr>store := ?st0, heap := h1\<rparr>"
  from succeeded(5) have tid: "tid = reqThread req" and m: "m = msg"
    by simp_all
  have rb: "resolveBase env (heap w) (reqUpload req) (reqTheme req)
              (threadAfterUser env (store w) sid tid prompt) = (Inr base, h1)"
    using succeeded(3) tid by simp
  have ext1: "extends (heap w) h1"
    using succeeded(3) by (rule resolveBase_extends)
  show ?thesis
  proof (cases "reqModel req = Some ''veo-3''")
    case True
    from succeeded(4) [unfolded True m]
    obtain video where
      v: "videoResult (generateVideo env (heap ?w0) prompt base) = Inr video"
      and hp: "heap w' = videoHeap (generateVideo env (heap ?w0) prompt base)"
      and st: "store w' = addMessage (store ?w0) sid (reqThread req) msg"
      and ms: "role msg = Assistant" "imageUrl msg = None" "videoUrl msg = Some (videoUrlFor env sid)"
      and out: "outputs w' = (outputs ?w0)(''public'' @ videoUrlFor env sid \<mapsto>
                  bufferBytes (mem (heap w')) video)"
      using generationStep_video_ok by blast
    have v': "videoResult (generateVideo env h1 prompt base) = Inr video"
      and hp': "heap w' = videoHeap (generateVideo env h1 prompt base)"
      using v hp by simp_all
    have "extends h1 (heap w')"
      using generateVideo_extends [of h1 env prompt base] hp' by simp
    with ext1 have ext: "extends (heap w) (heap w')"
      by (rule extends_trans)
    from generateVideo_Inr [OF v'] hp' obtain uri status where
      dl: "fetchUri env uri = Downloaded status (bufferBytes (mem (heap w')) video)" "ok status"
      by auto
    have vid: "\<exists>video uri status.
                 videoResult (generateVideo env h1 prompt base) = Inr video \<and>
                 heap w' = videoHeap (generateVideo env h1 prompt base) \<and>
                 fetchUri env uri = Downloaded status (bufferBytes (mem (heap w')) video) \<and>
                 ok status \<and>
                 outputs w' =
                   (outputs w)(''public'' @ videoUrlFor env sid \<mapsto>
                     bufferBytes (mem (heap w')) video)"
      using v' hp' dl out by auto
    have arts: "\<forall>s t. lastArtifactOf (store w') s t = lastArtifactOf (store w) s t"
      using st by (simp add: lastArtifactOf_addMessage storeAfterUser_lastArtifact)
    have log: "messagesOf (store w') sid tid =
                 messagesOf (store w) sid tid @ [userMessage env prompt, msg]"
      using st tid by (simp add: messagesOf_addMessage storeAfterUser_messages)
    have frame: "\<forall>b. allocated (heap w) b \<longrightarrow>
                   bufferBytes (mem (heap w')) b = bufferBytes (mem (heap w)) b"
      using ext by (simp add: extends_bytes)
    show ?thesis
      using succeeded(1,2) tid True ms rb vid arts log frame by auto
  next
    case False
    from generationStep_image_ok [OF succeeded(4) [unfolded m] False]
    obtain generated mime h2 png where
      en: "enforcePng1024 (sharp env) h2 generated = (Inr png, heap w')"
      and ge: "generateOrEditImage env (heap ?w0) prompt base (reqModel req) None =
                 (Inr (generated, mime), h2)"
      and st: "store w' = addMessage (setLastImage (store ?w0) sid (reqThread req) png ''image/png'')
                            sid (reqThread req) msg"
      and ms: "role msg = Assistant" "videoUrl msg = None" "imageUrl msg = Some (imageUrlFor env sid)"
      and out: "outputs w' = (outputs ?w0)(''public'' @ imageUrlFor env sid \<mapsto>
                  bufferBytes (mem (heap w')) png)"
      by blast
    have "extends h1 h2"
      using generateOrEditImage_extends [OF ge] by simp
    moreover have "extends h2 (heap w')"
      using en by (rule enforcePng1024_extends)
    ultimately have ext: "extends (heap w) (heap w')"
      using ext1 by (blast intro: extends_trans)
    have "generateOrEditImage env h1 prompt base (reqModel req) None = (Inr (generated, mime), h2) \<and>
          enforcePng1024 (sharp env) h2 generated = (Inr png, heap w') \<and>
          lastArtifactOf (store w') sid tid = (Some png, Some ''image/png'') \<and>
          outputs w' = (outputs w)(''public'' @ imageUrlFor env sid \<mapsto>
                         bufferBytes (mem (heap w')) png)"
      using ge en st out tid
      by (simp add: lastArtifactOf_addMessage lastArtifactOf_setLastImage)
    then have img: "\<exists>generated mime h2 png.
          generateOrEditImage env h1 prompt base (reqModel req) None = (Inr (generated, mime), h2) \<and>
          enforcePng1024 (sharp env) h2 generated = (Inr png, heap w') \<and>
          lastArtifactOf (store w') sid tid = (Some png, Some ''image/png'') \<and>
          outputs w' = (outputs w)(''public'' @ imageUrlFor env sid \<mapsto>
                         bufferBytes (mem (heap w')) png)"
      by blast
    have others: "\<forall>s t. (s, t) \<noteq> (sid, tid) \<longrightarrow>
          lastArtifactOf (store w') s t = lastArtifactOf (store w) s t"
      using st tid
      by (auto simp: lastArtifactOf_addMessage lastArtifactOf_setLastImage
                     storeAfterUser_lastArtifact)
    have log: "messagesOf (store w') sid tid =
                 messagesOf (store w) sid tid @ [userMessage env prompt, msg]"
      using st tid
      by (simp add: messagesOf_addMessage messagesOf_setLastImage storeAfterUser_messages)
    have frame: "\<forall>b. allocated (heap w) b \<longrightarrow>
                   bufferBytes (mem (heap w')) b = bufferBytes (mem (heap w)) b"
      using ext by (simp add: extends_bytes)
    show ?thesis
      using succeeded(1,2) tid False ms rb img others log frame by auto
  qed
qed simp_all

theorem POST_success_artifact_witness:
  "fst (POST videoEnv exampleWorld ''s'' videoRequestBody) =
     Json 200 (MessageBody ''default''
       \<lparr>msgId = ''1003-a'', role = Assistant, msgText = None, imageUrl = None,
        videoUrl = Some ''/outputs/s/1002.mp4'', timestamp = 1004\<rparr>) \<and>
   lastArtifactOf (store (snd (POST videoEnv exampleWorld ''s'' videoRequestBody))) ''s'' ''default'' =
     (Some \<lparr>region = 0, byteOffset = 0, byteLength = 3\<rparr>, Some ''image/png'') \<and>
   lastArtifactOf (store exampleWorld) ''s'' ''default'' =
     (Some \<lparr>region = 0, byteOffset = 0, byteLength = 3\<rparr>, Some ''image/png'') \<and>
   outputs (snd (POST videoEnv exampleWorld ''s'' videoRequestBody)) ''public/outputs/s/1002.mp4'' =
     Some [7, 7] \<and>
   fst (POST exampleEnv exampleWorld ''s'' imageRequestBody) =
     Json 200 (MessageBody ''default''
       \<lparr>msgId = ''1006-a'', role = Assistant, msgText = None,
        imageUrl = Some ''/outputs/s/1005.png'', videoUrl = None, timestamp = 1007\<rparr>) \<and>
   lastArtifactOf (store (snd (POST exampleEnv exampleWorld ''s'' imageRequestBody))) ''s'' ''default'' =
     (Some \<lparr>region = 3, byteOffset = 0, byteLength = 3\<rparr>, Some ''image/png'') \<and>
   outputs (snd (POST exampleEnv exampleWorld ''s'' imageRequestBody)) ''public/outputs/s/1005.png'' =
     Some [0, 16, 16]"
  using
    POST_success_artifact [of videoEnv exampleWorld "''s''" videoRequestBody "''default''"
      "\<lparr>msgId = ''1003-a'', role = Assistant, msgText = None, imageUrl = None,
        videoUrl = Some ''/outputs/s/1002.mp4'', timestamp = 1004\<rparr>"
      "snd (POST videoEnv exampleWorld ''s'' videoRequestBody)"]
    POST_success_artifact [of exampleEnv exampleWorld "''s''" imageRequestBody "''default''"
      "\<lparr>msgId = ''1006-a'', role = Assistant, msgText = None,
        imageUrl = Some ''/outputs/s/1005.png'', videoUrl = None, timestamp = 1007\<rparr>"
      "snd (POST exampleEnv exampleWorld ''s'' imageRequestBody)"]
  by (simp add: eval_defs videoEnv_def completedOperation_def imageRequestBody_def
        videoRequestBody_def videoUrlFor_def imageUrlFor_def Let_def)


section \<open>A failure that is not recorded\<close>

text \<open>
  C2. An upload that sharp cannot decode. The user message is recorded, then
  \<open>enforcePng1024\<close> throws on the upload, outside the \<open>try\<close> block: the error leaves
  the handler, and the thread has gained the user message and no assistant message.
\<close>

theorem POST_undecodable_upload:
  "fst (POST exampleEnv exampleWorld ''s'' undecodableUpload) =
     Thrown (LibraryError ''Input buffer contains unsupported image format'') \<and>
   messagesOf (store (snd (POST exampleEnv exampleWorld ''s'' undecodableUpload))) ''s'' ''default'' =
     messagesOf (store exampleWorld) ''s'' ''default'' @ [userMessage exampleEnv ''make it blue'']"
  by (simp add: eval_defs undecodableUpload_def Let_def)


section \<open>Parsing the image response\<close>

lemma matchDataUri_needs_prefix:
  "\<not> startsWith text ''data:image/'' \<Longrightarrow> matchDataUri text = None"
  by (simp add: matchDataUri_def)

lemma getProp_not_record: "\<not> isRecord v \<Longrightarrow> getProp v key = None"
  by (cases v rule: isRecord.cases) simp_all

lemma scanPart_partPayload: "scanPart p = partPayload p"
proof (cases "isRecord (Some p)")
  case False
  then show ?thesis
    by (simp add: scanPart_def partPayload_def inlinePayload_def textPayload_def Let_def
                  getProp_not_record)
next
  case True
  then show ?thesis
    by (auto simp: scanPart_def partPayload_def inlinePayload_def textPayload_def Let_def
                   matchDataUri_needs_prefix
             split: option.splits)
qed

lemma scanParts_firstSome: "scanParts ps = firstSome partPayload ps"
  by (induction ps) (simp_all add: scanPart_partPayload split: option.splits)

lemma firstSome_append:
  "firstSome f (xs @ ys) = (case firstSome f xs of Some r \<Rightarrow> Some r | None \<Rightarrow> firstSome f ys)"
  by (induction xs) (simp_all split: option.splits)

lemma scanCandidates_firstSome:
  "scanCandidates cs = firstSome partPayload (concat (map candidateParts cs))"
  by (induction cs)
     (auto simp: candidateParts_def scanParts_firstSome firstSome_append Let_def split: option.splits)

text \<open>
  The inline data of a part is the value of the first of the four keys that is neither
  absent nor null. A later key is not read, also when the first present value carries
  no data.
\<close>

lemma nullish_if:
  "nullish a b = (if a = None \<or> a = Some JNull then b else a)"
  by (cases "(a, b)" rule: nullish.cases) simp_all

lemma inlineOf_first_present:
  "inlineOf p =
     (case filter (\<lambda>v. v \<noteq> None \<and> v \<noteq> Some JNull)
             (map (getProp (Some p)) [''inline_data'', ''inlineData'', ''file_data'']) of
        [] \<Rightarrow> getProp (Some p) ''fileData''
      | v # vs \<Rightarrow> v)"
  by (auto simp: inlineOf_def nullish_if)

lemma inlinePayload_later_key_unread:
  "inlinePayload (JObj [(''inline_data'', JNum 1),
                        (''inlineData'', JObj [(''data'', JStr ''AAAA'')])]) = None \<and>
   inlinePayload (JObj [(''inline_data'', JNull),
                        (''inlineData'', JObj [(''data'', JStr ''AAAA'')])]) =
     Some \<lparr>payloadData = ''AAAA'', payloadMime = ''image/png''\<rparr>"
  by (simp add: inlinePayload_def inlineOf_def)

text \<open>
  C7, as amended. The response is scanned part by part, through the candidates and
  their parts in document order; each part is examined for inline data first and for a
  data-URI text second, and the first part that gives an image either way is returned.
  The inline data of a part is read under the first of the keys \<open>inline_data\<close>,
  \<open>inlineData\<close>, \<open>file_data\<close>, \<open>fileData\<close> whose value is neither absent nor null, and
  under no other. Only when no part gives an image is the first element of the
  top-level \<open>images\<close> array taken, and without it the parse fails with the no-image
  error.
\<close>

theorem parseImageResponse_order:
  "parseImageResponse j =
     (if isRecord (Some j) then
        (case firstSome partPayload (allParts j) of
           Some r \<Rightarrow> Inr r
         | None \<Rightarrow>
             (case topLevelImage j of
                Some r \<Rightarrow> Inr r
              | None \<Rightarrow> Inl NoImagePayload))
      else Inl NoImagePayload)"
  by (simp add: parseImageResponse_def scanCandidates_firstSome allParts_def)

text \<open>
  C7, as stated, fails: with a data-URI text part before an inline-data part, the code
  returns the text part's image, where inline data first would return the other.
\<close>

theorem parseImageResponse_order_counterexample:
  "parseImageResponse textBeforeInline =
     Inr \<lparr>payloadData = ''AAAA'', payloadMime = ''image/png''\<rparr> \<and>
   parseInStatedOrder textBeforeInline =
     Inr \<lparr>payloadData = ''BBBB'', payloadMime = ''image/jpeg''\<rparr> \<and>
   parseImageResponse textBeforeInline \<noteq> parseInStatedOrder textBeforeInline"
  by (simp add: parseImageResponse_def parseInStatedOrder_def textBeforeInline_def
        scanPart_def inlineOf_def arrayOrEmpty_def matchDataUri_def isSubtypeChar_def
        allParts_def candidateParts_def inlinePayload_def textPayload_def)


section \<open>The model and the system instruction of an image request\<close>

lemma GEMINI_IMAGE_MODEL_nonempty: "GEMINI_IMAGE_MODEL env \<noteq> []"
  by (cases "GEMINI_IMAGE_MODEL_env env") (auto simp: GEMINI_IMAGE_MODEL_def orElse_def)

text \<open>
  The model of the request is the caller's when it contains "gemini" in any case, and
  the configured default image model otherwise.
\<close>

lemma selectModel_pattern:
  "selectModel env modelId =
     (if truthy modelId \<and> testGemini (the modelId) then the modelId else GEMINI_IMAGE_MODEL env)"
  by (cases modelId) (auto simp: selectModel_def Let_def GEMINI_IMAGE_MODEL_nonempty)

lemma getSystemPrompt_video:
  "getSystemPrompt (Some ''veo-3.0-generate-preview'') templateId = Some VIDEO_SYSTEM_PROMPT"
  by (simp add: getSystemPrompt_def)

lemma getSystemPrompt_template:
  "modelId \<noteq> Some ''veo-3.0-generate-preview'' \<Longrightarrow> map_of PROMPT_TEMPLATES key = Some p \<Longrightarrow>
   getSystemPrompt modelId (Some key) = Some p"
  by (auto simp: getSystemPrompt_def templateProperty_def PROMPT_TEMPLATES_def split: if_splits)

lemma getSystemPrompt_default:
  "modelId \<noteq> Some ''veo-3.0-generate-preview'' \<Longrightarrow>
   templateId = None \<or> templateId = Some [] \<or>
     (\<exists>key. templateId = Some key \<and> map_of PROMPT_TEMPLATES key = None \<and>
            key \<notin> set objectPrototypeKeys) \<Longrightarrow>
   getSystemPrompt modelId templateId = Some logoPrompt"
  by (auto simp: getSystemPrompt_def templateProperty_def)

text \<open>
  C8. An unknown template identifier that names a member of \<open>Object.prototype\<close>:
  \<open>PROMPT_TEMPLATES["constructor"]\<close> is truthy and has no \<open>prompt\<close>, so the system
  instruction is \<open>undefined\<close>, not the default template's text. The model selection
  itself is as claimed.
\<close>

theorem getSystemPrompt_inherited_key:
  "map_of PROMPT_TEMPLATES ''constructor'' = None \<and>
   getSystemPrompt (Some ''gemini-2.5-flash-image-preview'') (Some ''constructor'') = None \<and>
   system_instruction (imageRequest exampleEnv exampleHeap ''a cat logo'' None
      (Some ''gemini-2.5-flash-image-preview'') (Some ''constructor'')) = None \<and>
   model (imageRequest exampleEnv exampleHeap ''a cat logo'' None
      (Some ''gemini-2.5-flash-image-preview'') (Some ''constructor'')) =
     ''gemini-2.5-flash-image-preview'' \<and>
   getSystemPrompt (Some ''gemini-2.5-flash-image-preview'') (Some ''no-such-template'') =
     Some logoPrompt"
  by (simp add: getSystemPrompt_def templateProperty_def PROMPT_TEMPLATES_def
        objectPrototypeKeys_def imageRequest_def selectModel_def testGemini_def lowerAscii_def)


end
